theory Spec2Isabelle
  imports Complex_Main "HOL-Library.Sublist"
begin

section \<open>Model Scout: catalogue lookup and the consideration engine\<close>

text \<open>
  A shallow embedding of the server's engine (the JavaScript module that defines
  \<open>fetchModels\<close>, \<open>parsePrice\<close>, \<open>extractProvider\<close>, \<open>isFree\<close>, \<open>formatModelData\<close>,
  \<open>getModel\<close>, \<open>applyFilters\<close>, \<open>parseRequest\<close>, \<open>searchModels\<close>, \<open>calculateCost\<close>,
  \<open>sortModels\<close>, \<open>generateComparison\<close> and \<open>considerModels\<close>). Every function keeps its
  source name. An exception of the source is the \<open>Inl\<close> branch of a sum; the module-level cache
  is passed in and returned.
\<close>

subsection \<open>Strings\<close>

text \<open>
  Strings are lists of 8-bit characters. \<open>toLowerCase\<close> folds the ASCII letters, which is
  what the source's \<open>String.prototype.toLowerCase\<close> does on ASCII text; \<open>str_includes\<close> is the
  contiguous-substring test of \<open>String.prototype.includes\<close>; \<open>js_split\<close> is
  \<open>String.prototype.split\<close> with a one-character separator.
\<close>

definition toLowerChar :: "char \<Rightarrow> char" where
  "toLowerChar c =
     (let n = (of_char c :: nat) in if 65 \<le> n \<and> n \<le> 90 then char_of (n + 32) else c)"

definition toLowerCase :: "string \<Rightarrow> string" where
  "toLowerCase s = map toLowerChar s"

fun str_includes :: "string \<Rightarrow> string \<Rightarrow> bool" where
  "str_includes [] sub = (sub = [])"
| "str_includes (c # s) sub = (prefix sub (c # s) \<or> str_includes s sub)"

fun js_split :: "char \<Rightarrow> string \<Rightarrow> string list" where
  "js_split sep [] = [[]]"
| "js_split sep (c # s) =
     (if c = sep then [] # js_split sep s
      else (case js_split sep s of [] \<Rightarrow> [[c]] | p # ps \<Rightarrow> (c # p) # ps))"

subsection \<open>Numbers\<close>

text \<open>
  A JavaScript number is an IEEE 754 double. \<open>Fin q\<close> is the finite double of value \<open>q\<close>
  (with \<open>Fin 0\<close> the positive zero), \<open>NegZero\<close> the negative zero. Arithmetic computes the
  exact rational result and rounds it to the nearest double, ties to even, with gradual
  underflow below \<open>2^-1022\<close> and overflow to infinity from \<open>2^1024\<close> on.
\<close>

datatype jsnum = Fin rat | NegZero | PosInf | NegInf | NaN

fun bitlen :: "int \<Rightarrow> int" where
  "bitlen n = (if n \<le> 0 then 0 else 1 + bitlen (n div 2))"

declare bitlen.simps [simp del]

definition pow2 :: "int \<Rightarrow> int" where
  "pow2 k = 2 ^ nat k"

text \<open>\<open>ilog2 a b\<close> is the binary exponent of \<open>a / b\<close> for positive \<open>a\<close> and \<open>b\<close>.\<close>

definition ilog2 :: "int \<Rightarrow> int \<Rightarrow> int" where
  "ilog2 a b =
     (let k = bitlen a - bitlen b
      in if (if 0 \<le> k then b * pow2 k \<le> a else b \<le> a * pow2 (- k)) then k else k - 1)"

definition round_half_even :: "int \<Rightarrow> int \<Rightarrow> int" where
  "round_half_even n d =
     (let q = n div d; r = n mod d
      in if 2 * r < d then q else if d < 2 * r then q + 1 else if even q then q else q + 1)"

text \<open>
  \<open>round_mag a b\<close> rounds the positive fraction \<open>a / b\<close> to a 53-bit significand; \<open>None\<close> is
  overflow.
\<close>

definition round_mag :: "int \<Rightarrow> int \<Rightarrow> rat option" where
  "round_mag a b =
     (let k = max (ilog2 a b) (- 1022) - 52;
          m = (if 0 \<le> k then round_half_even a (b * pow2 k)
               else round_half_even (a * pow2 (- k)) b)
      in if 0 \<le> k then (if pow2 1024 \<le> m * pow2 k then None else Some (of_int (m * pow2 k)))
         else Some (of_int m / of_int (pow2 (- k))))"

definition js_zero :: "bool \<Rightarrow> jsnum" where
  "js_zero neg = (if neg then NegZero else Fin 0)"

definition js_inf :: "bool \<Rightarrow> jsnum" where
  "js_inf neg = (if neg then NegInf else PosInf)"

text \<open>\<open>to_double neg q\<close> is the double nearest to the magnitude \<open>q \<ge> 0\<close>, with sign \<open>neg\<close>.\<close>

definition to_double :: "bool \<Rightarrow> rat \<Rightarrow> jsnum" where
  "to_double neg q =
     (if q = 0 then js_zero neg
      else case quotient_of q of (a, b) \<Rightarrow>
        (case round_mag a b of
           None \<Rightarrow> js_inf neg
         | Some r \<Rightarrow> if r = 0 then js_zero neg else Fin (if neg then - r else r)))"

definition round_rat :: "rat \<Rightarrow> jsnum" where
  "round_rat q = to_double (q < 0) \<bar>q\<bar>"

fun is_negative :: "jsnum \<Rightarrow> bool" where
  "is_negative (Fin q) = (q < 0)"
| "is_negative NegZero = True"
| "is_negative NegInf = True"
| "is_negative PosInf = False"
| "is_negative NaN = False"

fun is_zero :: "jsnum \<Rightarrow> bool" where
  "is_zero (Fin q) = (q = 0)"
| "is_zero NegZero = True"
| "is_zero _ = False"

fun is_inf :: "jsnum \<Rightarrow> bool" where
  "is_inf PosInf = True"
| "is_inf NegInf = True"
| "is_inf _ = False"

text \<open>The rank orders \<open>-Infinity\<close>, the finite numbers and \<open>Infinity\<close>; \<open>fval\<close> is the finite value.\<close>

fun rank :: "jsnum \<Rightarrow> int" where
  "rank NegInf = - 1"
| "rank PosInf = 1"
| "rank _ = 0"

fun fval :: "jsnum \<Rightarrow> rat" where
  "fval (Fin q) = q"
| "fval _ = 0"

fun js_neg :: "jsnum \<Rightarrow> jsnum" where
  "js_neg (Fin q) = (if q = 0 then NegZero else Fin (- q))"
| "js_neg NegZero = Fin 0"
| "js_neg PosInf = NegInf"
| "js_neg NegInf = PosInf"
| "js_neg NaN = NaN"

definition js_add :: "jsnum \<Rightarrow> jsnum \<Rightarrow> jsnum" where
  "js_add a b =
     (if a = NaN \<or> b = NaN then NaN
      else if is_inf a \<or> is_inf b then
        (if is_inf a \<and> is_inf b \<and> a \<noteq> b then NaN else if is_inf a then a else b)
      else if a = NegZero \<and> b = NegZero then NegZero
      else round_rat (fval a + fval b))"

definition js_sub :: "jsnum \<Rightarrow> jsnum \<Rightarrow> jsnum" where
  "js_sub a b = js_add a (js_neg b)"

definition js_mul :: "jsnum \<Rightarrow> jsnum \<Rightarrow> jsnum" where
  "js_mul a b =
     (if a = NaN \<or> b = NaN then NaN
      else if is_inf a \<or> is_inf b then
        (if is_zero a \<or> is_zero b then NaN else js_inf (is_negative a \<noteq> is_negative b))
      else to_double (is_negative a \<noteq> is_negative b) (\<bar>fval a\<bar> * \<bar>fval b\<bar>))"

definition js_div :: "jsnum \<Rightarrow> jsnum \<Rightarrow> jsnum" where
  "js_div a b =
     (if a = NaN \<or> b = NaN then NaN
      else if is_inf a then (if is_inf b then NaN else js_inf (is_negative a \<noteq> is_negative b))
      else if is_inf b then js_zero (is_negative a \<noteq> is_negative b)
      else if is_zero b then
        (if is_zero a then NaN else js_inf (is_negative a \<noteq> is_negative b))
      else to_double (is_negative a \<noteq> is_negative b) (\<bar>fval a\<bar> / \<bar>fval b\<bar>))"

text \<open>The comparisons \<open><\<close>, \<open><=\<close>, \<open>>=\<close>, \<open>>\<close> and \<open>===\<close> on numbers: all false at \<open>NaN\<close>.\<close>

definition js_lt :: "jsnum \<Rightarrow> jsnum \<Rightarrow> bool" where
  "js_lt a b =
     (a \<noteq> NaN \<and> b \<noteq> NaN \<and> (rank a < rank b \<or> (rank a = rank b \<and> fval a < fval b)))"

definition js_strict_eq :: "jsnum \<Rightarrow> jsnum \<Rightarrow> bool" where
  "js_strict_eq a b = (a \<noteq> NaN \<and> b \<noteq> NaN \<and> rank a = rank b \<and> fval a = fval b)"

definition js_le :: "jsnum \<Rightarrow> jsnum \<Rightarrow> bool" where
  "js_le a b = (js_lt a b \<or> js_strict_eq a b)"

definition js_gt :: "jsnum \<Rightarrow> jsnum \<Rightarrow> bool" where
  "js_gt a b = js_lt b a"

definition js_ge :: "jsnum \<Rightarrow> jsnum \<Rightarrow> bool" where
  "js_ge a b = js_le b a"

text \<open>A number is truthy unless it is a zero or \<open>NaN\<close>.\<close>

definition js_truthy :: "jsnum \<Rightarrow> bool" where
  "js_truthy n = (n \<noteq> NaN \<and> \<not> is_zero n)"

subsection \<open>\<open>parseFloat\<close>\<close>

text \<open>
  \<open>parseFloat\<close> skips leading white space, reads the longest prefix that is a signed
  decimal literal (\<open>Infinity\<close>, or digits with an optional fraction and exponent) and rounds
  its value; it is \<open>NaN\<close> when no such prefix exists.
\<close>

definition is_space :: "char \<Rightarrow> bool" where
  "is_space c = (let n = (of_char c :: nat) in (9 \<le> n \<and> n \<le> 13) \<or> n = 32)"

definition is_digit :: "char \<Rightarrow> bool" where
  "is_digit c = (let n = (of_char c :: nat) in 48 \<le> n \<and> n \<le> 57)"

definition digit_val :: "char \<Rightarrow> int" where
  "digit_val c = int (of_char c) - 48"

definition digits_val :: "string \<Rightarrow> int" where
  "digits_val ds = foldl (\<lambda>acc c. 10 * acc + digit_val c) 0 ds"

definition parse_exponent :: "string \<Rightarrow> int" where
  "parse_exponent r =
     (case r of
        [] \<Rightarrow> 0
      | c # r1 \<Rightarrow>
          if c = CHR ''e'' \<or> c = CHR ''E'' then
            (case r1 of
               [] \<Rightarrow> 0
             | s # r2 \<Rightarrow>
                 if s = CHR ''-'' then - digits_val (takeWhile is_digit r2)
                 else if s = CHR ''+'' then digits_val (takeWhile is_digit r2)
                 else digits_val (takeWhile is_digit r1))
          else 0)"

definition decimal_value :: "int \<Rightarrow> int \<Rightarrow> rat" where
  "decimal_value d e =
     (if 0 \<le> e then of_int (d * 10 ^ nat e) else of_int d / of_int (10 ^ nat (- e)))"

definition parse_unsigned :: "bool \<Rightarrow> string \<Rightarrow> jsnum" where
  "parse_unsigned neg r =
     (if prefix ''Infinity'' r then js_inf neg
      else
        let ip = takeWhile is_digit r;
            r1 = dropWhile is_digit r;
            dot = (case r1 of [] \<Rightarrow> False | c # _ \<Rightarrow> c = CHR ''.'');
            fp = (if dot then takeWhile is_digit (tl r1) else []);
            r2 = (if dot then dropWhile is_digit (tl r1) else r1)
        in if ip = [] \<and> fp = [] then NaN
           else to_double neg
                  (decimal_value (digits_val (ip @ fp)) (parse_exponent r2 - int (length fp))))"

definition parseFloat :: "string \<Rightarrow> jsnum" where
  "parseFloat s =
     (let t = dropWhile is_space s
      in case t of
           [] \<Rightarrow> NaN
         | c # r \<Rightarrow>
             if c = CHR ''-'' then parse_unsigned True r
             else if c = CHR ''+'' then parse_unsigned False r
             else parse_unsigned False t)"

subsection \<open>Values, upstream records and errors\<close>

text \<open>
  A field of an upstream object that the code reads without knowing its type is a
  \<open>jsval\<close>: absent (\<open>undefined\<close> or \<open>null\<close>), a string or a number. The records below are
  the objects of the catalogue's \<open>data\<close> array. The price fields arrive as decimal text. The
  last three fields of \<open>pricing\<close> are read by \<open>generateComparison\<close> only; the catalogue
  does not supply them (they are \<open>Undefined\<close> on every upstream record).
\<close>

datatype jsval = Undefined | Str string | Num jsnum

datatype js_error =
    ApiError nat string
  | NetworkError
  | SyntaxError
  | ModelNotFound string
  | TypeError
  | RangeError

record pricing =
  prompt :: jsval
  completion :: jsval
  request :: jsval
  image_fee :: jsval
  web_search :: jsval
  internal_reasoning :: jsval
  input_cache_read :: jsval
  prompt_per_1m :: jsval
  completion_per_1m :: jsval
  total_per_1m :: jsval

record architecture =
  modality :: "string option"
  input_modalities :: "string list option"
  output_modalities :: "string list option"

record top_provider =
  max_completion_tokens :: "jsnum option"
  is_moderated :: "bool option"

record model =
  m_id :: string
  canonical_slug :: "string option"
  name :: string
  hugging_face_id :: "string option"
  context_length :: jsnum
  created :: jsnum
  description :: string
  architecture :: "architecture option"
  pricing :: pricing
  top_provider :: "top_provider option"
  supported_parameters :: "string list option"

definition val_truthy :: "jsval \<Rightarrow> bool" where
  "val_truthy v = (case v of Undefined \<Rightarrow> False | Str s \<Rightarrow> s \<noteq> [] | Num n \<Rightarrow> js_truthy n)"

text \<open>\<open>x || undefined\<close> and \<open>x || 0\<close> on a number \<open>x\<close>.\<close>

definition or_undefined :: "jsnum \<Rightarrow> jsnum option" where
  "or_undefined n = (if js_truthy n then Some n else None)"

definition or_zero :: "jsnum \<Rightarrow> jsnum" where
  "or_zero n = (if js_truthy n then n else Fin 0)"

definition of_opt :: "jsnum option \<Rightarrow> jsval" where
  "of_opt v = (case v of None \<Rightarrow> Undefined | Some n \<Rightarrow> Num n)"

definition truthy_opt :: "jsnum option \<Rightarrow> jsnum option" where
  "truthy_opt v = (case v of None \<Rightarrow> None | Some n \<Rightarrow> or_undefined n)"

subsection \<open>The record normalizer\<close>

text \<open>
  \<open>parsePrice\<close> is \<open>priceStr ? parseFloat(priceStr) : 0\<close>. On a number, \<open>parseFloat\<close> reads the
  number's own decimal rendering back, which gives the number itself.
\<close>

definition parsePrice :: "jsval \<Rightarrow> jsnum" where
  "parsePrice priceStr =
     (case priceStr of
        Undefined \<Rightarrow> Fin 0
      | Str s \<Rightarrow> if s \<noteq> [] then parseFloat s else Fin 0
      | Num n \<Rightarrow> if js_truthy n then n else Fin 0)"

definition extractProvider :: "string \<Rightarrow> string" where
  "extractProvider modelId =
     (case js_split CHR ''/'' modelId of
        [] \<Rightarrow> []
      | p # _ \<Rightarrow> if p \<noteq> [] then p else [])"

definition isFree :: "pricing \<Rightarrow> bool" where
  "isFree pr =
     (js_strict_eq (parsePrice (prompt pr)) (Fin 0) \<and>
      js_strict_eq (parsePrice (completion pr)) (Fin 0))"

definition getCapabilities :: "string list option \<Rightarrow> string list option \<Rightarrow> string list" where
  "getCapabilities ims sps =
     (if (case ims of None \<Rightarrow> False | Some l \<Rightarrow> ''image'' \<in> set l) then [''vision''] else []) @
     (if (case ims of None \<Rightarrow> False | Some l \<Rightarrow> 1 < length l) then [''multimodal''] else []) @
     (if (case sps of None \<Rightarrow> False | Some l \<Rightarrow> ''tools'' \<in> set l) then [''tools''] else []) @
     (if (case sps of None \<Rightarrow> False | Some l \<Rightarrow> ''reasoning'' \<in> set l) then [''reasoning''] else []) @
     (if (case sps of None \<Rightarrow> False | Some l \<Rightarrow> ''structured_outputs'' \<in> set l)
      then [''structured_outputs''] else [])"

text \<open>
  \<open>new Date(t).toISOString()\<close>: the time value is clipped to \<open>8.64e15\<close> milliseconds around
  the epoch and truncated to an integer; \<open>toISOString\<close> raises \<open>RangeError\<close> on an invalid
  date. The text it returns is kept as the instant it denotes, in milliseconds.
\<close>

definition truncate_rat :: "rat \<Rightarrow> int" where
  "truncate_rat q = (if 0 \<le> q then \<lfloor>q\<rfloor> else \<lceil>q\<rceil>)"

definition toISOString :: "jsnum \<Rightarrow> js_error + int" where
  "toISOString t =
     (case t of
        Fin q \<Rightarrow> if \<bar>q\<bar> \<le> 8640000000000000 then Inr (truncate_rat q) else Inl RangeError
      | NegZero \<Rightarrow> Inr 0
      | _ \<Rightarrow> Inl RangeError)"

record workload =
  prompt_tokens :: "jsnum option"
  completion_tokens :: "jsnum option"
  requests_per_day :: "jsnum option"
  requests_per_month :: "jsnum option"
  images :: "jsnum option"

record breakdown =
  prompt_cost :: "jsnum option"
  completion_cost :: "jsnum option"
  daily_request_cost :: "jsnum option"
  monthly_request_cost :: "jsnum option"
  image_cost :: "jsnum option"

record cost =
  cost_total :: jsnum
  cost_breakdown :: breakdown
  daily :: "jsnum option"
  monthly :: "jsnum option"
  per_request :: "jsnum option"

record fpricing =
  p_prompt :: jsnum
  p_completion :: jsnum
  p_prompt_per_1m :: jsnum
  p_completion_per_1m :: jsnum
  p_total_per_1m :: jsnum
  p_request :: "jsnum option"
  p_image :: "jsnum option"
  p_web_search :: "jsnum option"
  p_internal_reasoning :: "jsnum option"
  p_has_caching :: bool
  p_cache_read_per_1m :: "jsnum option"

record fmodel =
  f_id :: string
  f_canonical_slug :: "string option"
  f_name :: string
  f_provider :: string
  f_api_endpoint :: string
  f_api_format :: string
  f_hugging_face_id :: "string option"
  f_context_length :: jsnum
  f_max_completion_tokens :: "jsnum option"
  f_created :: int
  f_description :: string
  f_modality :: "string option"
  f_input_modalities :: "string list"
  f_output_modalities :: "string list"
  f_supported_parameters :: "string list"
  f_pricing :: fpricing
  f_is_moderated :: bool
  f_is_free :: bool
  f_estimated_cost :: "cost option"

definition formatPricing :: "pricing \<Rightarrow> fpricing" where
  "formatPricing pr =
     (let promptPrice = parsePrice (prompt pr);
          completionPrice = parsePrice (completion pr)
      in \<lparr> p_prompt = promptPrice,
           p_completion = completionPrice,
           p_prompt_per_1m = js_mul promptPrice (Fin 1000000),
           p_completion_per_1m = js_mul completionPrice (Fin 1000000),
           p_total_per_1m = js_mul (js_add promptPrice completionPrice) (Fin 1000000),
           p_request = or_undefined (parsePrice (request pr)),
           p_image = or_undefined (parsePrice (image_fee pr)),
           p_web_search = or_undefined (parsePrice (web_search pr)),
           p_internal_reasoning = or_undefined (parsePrice (internal_reasoning pr)),
           p_has_caching = val_truthy (input_cache_read pr),
           p_cache_read_per_1m =
             (if val_truthy (input_cache_read pr)
              then Some (js_mul (parsePrice (input_cache_read pr)) (Fin 1000000)) else None) \<rparr>)"

definition formatModelData :: "model \<Rightarrow> js_error + fmodel" where
  "formatModelData m =
     (case toISOString (js_mul (created m) (Fin 1000)) of
        Inl e \<Rightarrow> Inl e
      | Inr ms \<Rightarrow>
          Inr \<lparr> f_id = m_id m,
                f_canonical_slug = canonical_slug m,
                f_name = name m,
                f_provider = extractProvider (m_id m),
                f_api_endpoint = ''https://openrouter.ai/api/v1/chat/completions'',
                f_api_format = ''OpenAI-compatible'',
                f_hugging_face_id =
                  (case hugging_face_id m of None \<Rightarrow> None
                   | Some h \<Rightarrow> if h \<noteq> [] then Some h else None),
                f_context_length = context_length m,
                f_max_completion_tokens =
                  (case top_provider m of None \<Rightarrow> None
                   | Some tp \<Rightarrow> truthy_opt (max_completion_tokens tp)),
                f_created = ms,
                f_description = description m,
                f_modality = (case architecture m of None \<Rightarrow> None | Some a \<Rightarrow> modality a),
                f_input_modalities =
                  (case architecture m of None \<Rightarrow> []
                   | Some a \<Rightarrow> (case input_modalities a of None \<Rightarrow> [] | Some l \<Rightarrow> l)),
                f_output_modalities =
                  (case architecture m of None \<Rightarrow> []
                   | Some a \<Rightarrow> (case output_modalities a of None \<Rightarrow> [] | Some l \<Rightarrow> l)),
                f_supported_parameters =
                  (case supported_parameters m of None \<Rightarrow> [] | Some l \<Rightarrow> l),
                f_pricing = formatPricing (pricing m),
                f_is_moderated =
                  (case top_provider m of None \<Rightarrow> False
                   | Some tp \<Rightarrow> (case is_moderated tp of None \<Rightarrow> False | Some b \<Rightarrow> b)),
                f_is_free = isFree (pricing m),
                f_estimated_cost = None \<rparr>)"

subsection \<open>The catalogue cache\<close>

text \<open>
  \<open>modelsCache\<close> is the module-level cache object. A call of \<open>fetchModels\<close> reads the clock
  once (\<open>now\<close>, in milliseconds) and sends at most one request upstream, whose outcome is
  \<open>rep\<close>: the transport fails, or a response arrives with its \<open>ok\<close> flag, status, status
  text and body (\<open>None\<close> when the body is not the expected JSON). \<open>upstream_calls\<close> counts the
  requests sent. A timestamp of \<open>0\<close> is falsy, as in the source's test
  \<open>modelsCache.data && modelsCache.timestamp\<close>.
\<close>

record cache =
  data :: "model list option"
  timestamp :: "int option"

record world =
  modelsCache :: cache
  upstream_calls :: nat

datatype reply = NetworkFailure | Response bool nat string "model list option"

record fetched =
  models :: "model list"
  cache_age :: int
  cached :: bool

definition CACHE_DURATION_MS :: int where
  "CACHE_DURATION_MS = 10 * 60 * 1000"

definition cache_lookup :: "bool \<Rightarrow> int \<Rightarrow> cache \<Rightarrow> fetched option" where
  "cache_lookup forceRefresh now c =
     (if forceRefresh then None
      else case data c of
        None \<Rightarrow> None
      | Some d \<Rightarrow>
          (case timestamp c of
             None \<Rightarrow> None
           | Some t \<Rightarrow>
               if t = 0 then None
               else let age = now - t
                    in if age < CACHE_DURATION_MS
                       then Some \<lparr> models = d, cache_age = age div 1000, cached = True \<rparr>
                       else None))"

definition fetchModels ::
  "bool \<Rightarrow> int \<Rightarrow> reply \<Rightarrow> world \<Rightarrow> (js_error + fetched) \<times> world" where
  "fetchModels forceRefresh now rep w =
     (case cache_lookup forceRefresh now (modelsCache w) of
        Some r \<Rightarrow> (Inr r, w)
      | None \<Rightarrow>
          (let w1 = w\<lparr> upstream_calls := Suc (upstream_calls w) \<rparr>
           in case rep of
                NetworkFailure \<Rightarrow> (Inl NetworkError, w1)
              | Response ok status statusText body \<Rightarrow>
                  if \<not> ok then (Inl (ApiError status statusText), w1)
                  else (case body of
                          None \<Rightarrow> (Inl SyntaxError, w1)
                        | Some d \<Rightarrow>
                            (Inr \<lparr> models = d, cache_age = 0, cached = False \<rparr>,
                             w1\<lparr> modelsCache := \<lparr> data = Some d, timestamp = Some now \<rparr> \<rparr>))))"

subsection \<open>\<open>get_model\<close>\<close>

definition lookup_match :: "string \<Rightarrow> model \<Rightarrow> bool" where
  "lookup_match modelId m =
     (m_id m = modelId \<or>
      canonical_slug m = Some modelId \<or>
      toLowerCase (m_id m) = toLowerCase modelId \<or>
      str_includes (toLowerCase (name m)) (toLowerCase modelId))"

definition getModel ::
  "string \<Rightarrow> int \<Rightarrow> reply \<Rightarrow> world \<Rightarrow> (js_error + fmodel) \<times> world" where
  "getModel modelId now rep w =
     (case fetchModels False now rep w of
        (Inl e, w') \<Rightarrow> (Inl e, w')
      | (Inr r, w') \<Rightarrow>
          (case find (lookup_match modelId) (models r) of
             None \<Rightarrow> (Inl (ModelNotFound modelId), w')
           | Some m \<Rightarrow> (formatModelData m, w')))"

subsection \<open>Filters\<close>

datatype provider_filter = One string | Many "string list"

record filters =
  provider :: "provider_filter option"
  free_only :: "bool option"
  min_context :: "jsnum option"
  max_context :: "jsnum option"
  max_price_per_1m :: "jsnum option"
  has_vision :: "bool option"
  has_tools :: "bool option"
  has_reasoning :: "bool option"
  modality_is :: "string option"

definition no_filters :: filters where
  "no_filters =
     \<lparr> provider = None, free_only = None, min_context = None, max_context = None,
       max_price_per_1m = None, has_vision = None, has_tools = None, has_reasoning = None,
       modality_is = None \<rparr>"

definition has_input_image :: "model \<Rightarrow> bool" where
  "has_input_image m =
     (case architecture m of
        None \<Rightarrow> False
      | Some a \<Rightarrow> (case input_modalities a of None \<Rightarrow> False | Some l \<Rightarrow> ''image'' \<in> set l))"

definition supports :: "string \<Rightarrow> model \<Rightarrow> bool" where
  "supports tag m =
     (case supported_parameters m of None \<Rightarrow> False | Some l \<Rightarrow> tag \<in> set l)"

definition raw_total :: "model \<Rightarrow> jsnum" where
  "raw_total m = js_add (parsePrice (prompt (pricing m))) (parsePrice (completion (pricing m)))"

text \<open>Each block of \<open>applyFilters\<close> is one step on the list \<open>filtered\<close>.\<close>

definition filter_provider :: "filters \<Rightarrow> model list \<Rightarrow> model list" where
  "filter_provider flt ms =
     (case provider flt of
        None \<Rightarrow> ms
      | Some (One p) \<Rightarrow>
          if p \<noteq> [] then
            filter (\<lambda>m. list_ex (\<lambda>q. toLowerCase (extractProvider (m_id m)) = toLowerCase q) [p]) ms
          else ms
      | Some (Many providers) \<Rightarrow>
          filter (\<lambda>m. list_ex (\<lambda>q. toLowerCase (extractProvider (m_id m)) = toLowerCase q) providers) ms)"

definition filter_free :: "filters \<Rightarrow> model list \<Rightarrow> model list" where
  "filter_free flt ms =
     (if free_only flt = Some True then filter (\<lambda>m. isFree (pricing m)) ms else ms)"

definition filter_min_context :: "filters \<Rightarrow> model list \<Rightarrow> model list" where
  "filter_min_context flt ms =
     (case truthy_opt (min_context flt) of
        None \<Rightarrow> ms
      | Some n \<Rightarrow> filter (\<lambda>m. js_ge (context_length m) n) ms)"

definition filter_max_context :: "filters \<Rightarrow> model list \<Rightarrow> model list" where
  "filter_max_context flt ms =
     (case truthy_opt (max_context flt) of
        None \<Rightarrow> ms
      | Some n \<Rightarrow> filter (\<lambda>m. js_le (context_length m) n) ms)"

definition filter_max_price :: "filters \<Rightarrow> model list \<Rightarrow> model list" where
  "filter_max_price flt ms =
     (case truthy_opt (max_price_per_1m flt) of
        None \<Rightarrow> ms
      | Some n \<Rightarrow> filter (\<lambda>m. js_le (js_mul (raw_total m) (Fin 1000000)) n) ms)"

definition filter_vision :: "filters \<Rightarrow> model list \<Rightarrow> model list" where
  "filter_vision flt ms = (if has_vision flt = Some True then filter has_input_image ms else ms)"

definition filter_tools :: "filters \<Rightarrow> model list \<Rightarrow> model list" where
  "filter_tools flt ms = (if has_tools flt = Some True then filter (supports ''tools'') ms else ms)"

definition filter_reasoning :: "filters \<Rightarrow> model list \<Rightarrow> model list" where
  "filter_reasoning flt ms =
     (if has_reasoning flt = Some True then filter (supports ''reasoning'') ms else ms)"

definition filter_modality :: "filters \<Rightarrow> model list \<Rightarrow> model list" where
  "filter_modality flt ms =
     (case modality_is flt of
        None \<Rightarrow> ms
      | Some s \<Rightarrow>
          if s \<noteq> [] then
            filter (\<lambda>m. (case architecture m of None \<Rightarrow> False | Some a \<Rightarrow> modality a = Some s)) ms
          else ms)"

definition applyFilters :: "model list \<Rightarrow> filters \<Rightarrow> model list" where
  "applyFilters ms flt =
     filter_modality flt
       (filter_reasoning flt
          (filter_tools flt
             (filter_vision flt
                (filter_max_price flt
                   (filter_max_context flt
                      (filter_min_context flt
                         (filter_free flt
                            (filter_provider flt ms))))))))"

subsection \<open>The intent parser\<close>

record intent =
  i_filters :: filters
  search_terms :: "string list"
  sort_preference :: string
  understood_as :: string

definition known_providers :: "string list" where
  "known_providers =
     [''openai'', ''anthropic'', ''claude'', ''gpt'', ''meta'', ''llama'', ''google'', ''gemini'']"

definition parseRequest :: "string \<Rightarrow> intent" where
  "parseRequest req =
     (let lower = toLowerCase req;
          costly = (str_includes lower ''cheap'' \<or> str_includes lower ''affordable'' \<or>
                    str_includes lower ''low cost'');
          free = str_includes lower ''free'';
          vision = (str_includes lower ''vision'' \<or> str_includes lower ''image'' \<or>
                    str_includes lower ''multimodal'');
          tool = (str_includes lower ''tool'' \<or> str_includes lower ''function'');
          reasoning = (str_includes lower ''reasoning'' \<or> str_includes lower ''think'');
          long = (str_includes lower ''long context'' \<or> str_includes lower ''large context'')
      in \<lparr> i_filters =
             no_filters\<lparr> free_only := (if free then Some True else None),
                         has_vision := (if vision then Some True else None),
                         has_tools := (if tool then Some True else None),
                         has_reasoning := (if reasoning then Some True else None),
                         min_context := (if long then Some (Fin 100000) else None) \<rparr>,
           search_terms =
             (if vision then [''vision'', ''multimodal''] else []) @
             (if tool then [''tools'', ''function''] else []) @
             (if reasoning then [''reasoning''] else []) @
             (if str_includes lower ''instruct'' then [''instruct''] else []) @
             (if str_includes lower ''chat'' then [''chat''] else []) @
             filter (str_includes lower) known_providers,
           sort_preference = (if long then ''context'' else if costly then ''price'' else ''relevance''),
           understood_as =
             (if free then ''free models only''
              else if costly then ''cost-optimized search'' else []) \<rparr>)"

subsection \<open>Search\<close>

record scored =
  s_model :: model
  score :: nat

definition searchableText :: "model \<Rightarrow> string" where
  "searchableText m = toLowerCase (name m @ '' '' @ description m @ '' '' @ m_id m)"

definition score_terms :: "model \<Rightarrow> string list \<Rightarrow> nat" where
  "score_terms m searchTerms =
     foldl (\<lambda>sc term. if str_includes (searchableText m) (toLowerCase term) then sc + 1 else sc)
       0 searchTerms"

definition searchModels :: "model list \<Rightarrow> string list \<Rightarrow> scored list" where
  "searchModels ms searchTerms =
     (if searchTerms = [] then map (\<lambda>m. \<lparr> s_model = m, score = 1 \<rparr>) ms
      else filter (\<lambda>item. 0 < score item)
             (map (\<lambda>m. \<lparr> s_model = m, score = score_terms m searchTerms \<rparr>) ms))"

subsection \<open>The cost calculator\<close>

text \<open>
  \<open>calculateCost\<close> receives a formatted record, whose prices are numbers. Each block of the
  source is one step on the pair of the running total and the breakdown object.
\<close>

definition empty_breakdown :: breakdown where
  "empty_breakdown =
     \<lparr> prompt_cost = None, completion_cost = None, daily_request_cost = None,
       monthly_request_cost = None, image_cost = None \<rparr>"

definition add_prompt :: "fpricing \<Rightarrow> workload \<Rightarrow> jsnum \<times> breakdown \<Rightarrow> jsnum \<times> breakdown" where
  "add_prompt pr wl tb =
     (case truthy_opt (prompt_tokens wl) of
        None \<Rightarrow> tb
      | Some n \<Rightarrow>
          (let c = js_mul (parsePrice (Num (p_prompt pr))) n
           in (js_add (fst tb) c, (snd tb)\<lparr> prompt_cost := Some c \<rparr>)))"

definition add_completion :: "fpricing \<Rightarrow> workload \<Rightarrow> jsnum \<times> breakdown \<Rightarrow> jsnum \<times> breakdown" where
  "add_completion pr wl tb =
     (case truthy_opt (completion_tokens wl) of
        None \<Rightarrow> tb
      | Some n \<Rightarrow>
          (let c = js_mul (parsePrice (Num (p_completion pr))) n
           in (js_add (fst tb) c, (snd tb)\<lparr> completion_cost := Some c \<rparr>)))"

definition add_daily :: "fpricing \<Rightarrow> workload \<Rightarrow> jsnum \<times> breakdown \<Rightarrow> jsnum \<times> breakdown" where
  "add_daily pr wl tb =
     (case truthy_opt (requests_per_day wl) of
        None \<Rightarrow> tb
      | Some n \<Rightarrow>
          (let requestCost = or_zero (parsePrice (of_opt (p_request pr)));
               d = js_mul requestCost n
           in (js_add (fst tb) d,
               (snd tb)\<lparr> daily_request_cost := Some d,
                         monthly_request_cost := Some (js_mul d (Fin 30)) \<rparr>)))"

definition add_monthly :: "fpricing \<Rightarrow> workload \<Rightarrow> jsnum \<times> breakdown \<Rightarrow> jsnum \<times> breakdown" where
  "add_monthly pr wl tb =
     (case truthy_opt (requests_per_month wl) of
        None \<Rightarrow> tb
      | Some n \<Rightarrow>
          (let requestCost = or_zero (parsePrice (of_opt (p_request pr)));
               c = js_mul requestCost n
           in (js_add (fst tb) c, (snd tb)\<lparr> monthly_request_cost := Some c \<rparr>)))"

definition add_images :: "fpricing \<Rightarrow> workload \<Rightarrow> jsnum \<times> breakdown \<Rightarrow> jsnum \<times> breakdown" where
  "add_images pr wl tb =
     (case truthy_opt (images wl) of
        None \<Rightarrow> tb
      | Some n \<Rightarrow>
          (let c = js_mul (parsePrice (of_opt (p_image pr))) n
           in (js_add (fst tb) c, (snd tb)\<lparr> image_cost := Some c \<rparr>)))"

text \<open>The denominator \<open>requests_per_day || requests_per_month / 30\<close>.\<close>

definition request_count :: "workload \<Rightarrow> jsnum" where
  "request_count wl =
     (case truthy_opt (requests_per_day wl) of
        Some d \<Rightarrow> d
      | None \<Rightarrow>
          (case requests_per_month wl of None \<Rightarrow> NaN | Some r \<Rightarrow> js_div r (Fin 30)))"

definition calculateCost :: "fmodel \<Rightarrow> workload \<Rightarrow> cost" where
  "calculateCost m wl =
     (let pr = f_pricing m;
          tb = add_images pr wl
                 (add_monthly pr wl
                    (add_daily pr wl
                       (add_completion pr wl
                          (add_prompt pr wl (Fin 0, empty_breakdown)))));
          totalCost = fst tb;
          perDay = (truthy_opt (requests_per_day wl) \<noteq> None);
          perMonth = (truthy_opt (requests_per_month wl) \<noteq> None)
      in \<lparr> cost_total = totalCost,
           cost_breakdown = snd tb,
           daily = (if perDay then Some totalCost else None),
           monthly = (if perDay then Some (js_mul totalCost (Fin 30))
                      else if perMonth then Some totalCost else None),
           per_request = (if perDay \<or> perMonth
                          then Some (js_div totalCost (request_count wl)) else None) \<rparr>)"

subsection \<open>The sorter\<close>

text \<open>
  \<open>Array.prototype.sort\<close> with a comparator is a stable sort: an element moves behind
  another only where the comparator's result is positive (a \<open>NaN\<close> result counts as \<open>0\<close>).
  It is modelled by insertion from the right; the language fixes the result of a sort only
  for a comparator that is consistent, and there every stable sort gives this result.
  \<open>localeCompare\<close> depends on the host's
  collation, so it is a parameter \<open>coll\<close> of \<open>sortModels\<close>. The criterion is \<open>None\<close> when
  the caller passes \<open>undefined\<close>.
\<close>

fun insort_cmp :: "('a \<Rightarrow> 'a \<Rightarrow> jsnum) \<Rightarrow> 'a \<Rightarrow> 'a list \<Rightarrow> 'a list" where
  "insort_cmp cmp x [] = [x]"
| "insort_cmp cmp x (y # ys) =
     (if js_gt (cmp x y) (Fin 0) then y # insort_cmp cmp x ys else x # y # ys)"

definition js_sort :: "('a \<Rightarrow> 'a \<Rightarrow> jsnum) \<Rightarrow> 'a list \<Rightarrow> 'a list" where
  "js_sort cmp xs = foldr (insort_cmp cmp) xs []"

definition by_price :: "model \<Rightarrow> model \<Rightarrow> jsnum" where
  "by_price a b = js_sub (raw_total a) (raw_total b)"

definition by_context :: "model \<Rightarrow> model \<Rightarrow> jsnum" where
  "by_context a b = js_sub (context_length b) (context_length a)"

definition by_created :: "model \<Rightarrow> model \<Rightarrow> jsnum" where
  "by_created a b = js_sub (created b) (created a)"

definition by_name :: "(string \<Rightarrow> string \<Rightarrow> jsnum) \<Rightarrow> model \<Rightarrow> model \<Rightarrow> jsnum" where
  "by_name coll a b = coll (name a) (name b)"

definition sortModels ::
  "(string \<Rightarrow> string \<Rightarrow> jsnum) \<Rightarrow> model list \<Rightarrow> string option \<Rightarrow> model list" where
  "sortModels coll ms sortBy =
     (if sortBy = Some ''price'' then js_sort by_price ms
      else if sortBy = Some ''context'' then js_sort by_context ms
      else if sortBy = Some ''created'' then js_sort by_created ms
      else if sortBy = Some ''name'' then js_sort (by_name coll) ms
      else ms)"


text \<open>A sample collation, by character code, for running the model on concrete inputs.\<close>

fun code_unit_compare :: "string \<Rightarrow> string \<Rightarrow> jsnum" where
  "code_unit_compare [] [] = Fin 0"
| "code_unit_compare [] (y # ys) = Fin (- 1)"
| "code_unit_compare (x # xs) [] = Fin 1"
| "code_unit_compare (x # xs) (y # ys) =
     (if (of_char x :: nat) < of_char y then Fin (- 1)
      else if (of_char y :: nat) < of_char x then Fin 1
      else code_unit_compare xs ys)"

subsection \<open>The comparison builder\<close>

text \<open>
  A table cell keeps the value the source renders: \<open>CFixed d x\<close> is \<open>x.toFixed(d)\<close> behind a
  dollar sign, \<open>CLocale x\<close> is \<open>x.toLocaleString()\<close>, \<open>CMark\<close> the check mark or the cross,
  \<open>CNA\<close> the text \<open>N/A\<close>. \<open>reduce1\<close> is \<open>Array.prototype.reduce\<close> without an initial
  value, which raises \<open>TypeError\<close> on an empty array. Calling \<open>toFixed\<close> on a value that is
  not a number raises \<open>TypeError\<close>.
\<close>

datatype cell = CText string | CFixed nat jsnum | CLocale jsnum | CMark bool | CNA

record table =
  headers :: "string list"
  rows :: "cell list list"

record cost_table =
  ce_headers :: "string list"
  ce_rows :: "cell list list"
  ce_cheapest :: string

record summary =
  cheapest :: string
  highest_context :: string
  most_capable :: string

record comparison =
  cmp_pricing :: table
  cmp_capabilities :: table
  cmp_cost_estimate :: "cost_table option"
  cmp_summary :: summary

fun reduce1 :: "('a \<Rightarrow> 'a \<Rightarrow> 'a) \<Rightarrow> 'a list \<Rightarrow> js_error + 'a" where
  "reduce1 f [] = Inl TypeError"
| "reduce1 f (x # xs) = Inr (foldl f x xs)"

fun map_err :: "('a \<Rightarrow> js_error + 'b) \<Rightarrow> 'a list \<Rightarrow> js_error + 'b list" where
  "map_err f [] = Inr []"
| "map_err f (x # xs) =
     (case f x of
        Inl e \<Rightarrow> Inl e
      | Inr y \<Rightarrow> (case map_err f xs of Inl e \<Rightarrow> Inl e | Inr ys \<Rightarrow> Inr (y # ys)))"

definition pricing_row :: "model \<Rightarrow> js_error + cell list" where
  "pricing_row m =
     (case prompt_per_1m (pricing m) of
        Num a \<Rightarrow>
          (case completion_per_1m (pricing m) of
             Num b \<Rightarrow>
               (case total_per_1m (pricing m) of
                  Num c \<Rightarrow> Inr [CText (name m), CFixed 2 a, CFixed 2 b, CFixed 2 c]
                | _ \<Rightarrow> Inl TypeError)
           | _ \<Rightarrow> Inl TypeError)
      | _ \<Rightarrow> Inl TypeError)"

definition capability_row :: "model \<Rightarrow> cell list" where
  "capability_row m =
     [CText (name m), CLocale (context_length m), CMark (has_input_image m),
      CMark (supports ''tools'' m), CMark (supports ''reasoning'' m)]"

definition cost_row :: "model \<times> cost \<Rightarrow> cell list" where
  "cost_row mc =
     [CText (name (fst mc)), CFixed 4 (cost_total (snd mc)),
      (case truthy_opt (per_request (snd mc)) of None \<Rightarrow> CNA | Some r \<Rightarrow> CFixed 6 r)]"

definition cost_estimate :: "model list \<Rightarrow> workload \<Rightarrow> js_error + cost_table" where
  "cost_estimate ms wl =
     (case map_err (\<lambda>m. case formatModelData m of
                           Inl e \<Rightarrow> Inl e
                         | Inr formatted \<Rightarrow> Inr (m, calculateCost formatted wl)) ms of
        Inl e \<Rightarrow> Inl e
      | Inr costs \<Rightarrow>
          (case reduce1 (\<lambda>mn cur. if js_lt (cost_total (snd cur)) (cost_total (snd mn))
                                    then cur else mn) costs of
             Inl e \<Rightarrow> Inl e
           | Inr c \<Rightarrow>
               Inr \<lparr> ce_headers = [''Model'', ''Total Cost'', ''Per Request''],
                     ce_rows = map cost_row costs,
                     ce_cheapest = m_id (fst c) \<rparr>))"

definition param_count :: "model \<Rightarrow> nat" where
  "param_count m = (case supported_parameters m of None \<Rightarrow> 0 | Some l \<Rightarrow> length l)"

definition pick_cheapest :: "model \<Rightarrow> model \<Rightarrow> model" where
  "pick_cheapest mn cur = (if js_lt (raw_total cur) (raw_total mn) then cur else mn)"

definition pick_highest_context :: "model \<Rightarrow> model \<Rightarrow> model" where
  "pick_highest_context mx cur =
     (if js_gt (context_length cur) (context_length mx) then cur else mx)"

definition pick_most_capable :: "model \<Rightarrow> model \<Rightarrow> model" where
  "pick_most_capable mx cur = (if param_count mx < param_count cur then cur else mx)"

definition make_summary :: "model list \<Rightarrow> js_error + summary" where
  "make_summary ms =
     (case reduce1 pick_cheapest ms of
        Inl e \<Rightarrow> Inl e
      | Inr c \<Rightarrow>
          (case reduce1 pick_highest_context ms of
             Inl e \<Rightarrow> Inl e
           | Inr h \<Rightarrow>
               (case reduce1 pick_most_capable ms of
                  Inl e \<Rightarrow> Inl e
                | Inr k \<Rightarrow>
                    Inr \<lparr> cheapest = m_id c, highest_context = m_id h,
                          most_capable = m_id k \<rparr>)))"

definition generateComparison :: "model list \<Rightarrow> workload option \<Rightarrow> js_error + comparison" where
  "generateComparison ms wl =
     (case map_err pricing_row ms of
        Inl e \<Rightarrow> Inl e
      | Inr prows \<Rightarrow>
          (case (case wl of
                   None \<Rightarrow> Inr None
                 | Some w \<Rightarrow> (case cost_estimate ms w of Inl e \<Rightarrow> Inl e | Inr t \<Rightarrow> Inr (Some t))) of
             Inl e \<Rightarrow> Inl e
           | Inr ce \<Rightarrow>
               (case make_summary ms of
                  Inl e \<Rightarrow> Inl e
                | Inr sm \<Rightarrow>
                    Inr \<lparr> cmp_pricing =
                            \<lparr> headers = [''Model'', ''Prompt/1M'', ''Completion/1M'', ''Total/1M''],
                              rows = prows \<rparr>,
                          cmp_capabilities =
                            \<lparr> headers = [''Model'', ''Context'', ''Vision'', ''Tools'', ''Reasoning''],
                              rows = map capability_row ms \<rparr>,
                          cmp_cost_estimate = ce,
                          cmp_summary = sm \<rparr>)))"

subsection \<open>\<open>consider_models\<close>\<close>

record params =
  arg_request :: "string option"
  arg_filters :: "filters option"
  arg_model_ids :: "string list option"
  arg_workload :: "workload option"
  arg_max_results :: "jsnum option"
  arg_sort_by :: "string option"
  arg_force_refresh :: "bool option"

record interpreted =
  r_understood_as :: string
  r_applied_filters :: filters
  r_search_strategy :: string
  r_search_terms :: "string list"

record listed =
  l_id :: string
  l_name :: string
  l_provider :: string
  l_context_length :: jsnum
  l_prompt_per_1m :: jsnum
  l_completion_per_1m :: jsnum
  l_total_per_1m :: jsnum
  l_capabilities :: "string list"
  l_is_free :: bool
  l_estimated_cost :: "cost option"

record cost_option =
  co_id :: string
  co_cost :: jsnum

record cost_analysis =
  cheapest_option :: cost_option
  most_expensive_option :: cost_option
  potential_savings :: jsnum

record response =
  r_interpretation :: interpreted
  r_models :: "listed list"
  r_total_models_found :: nat
  r_models_returned :: nat
  r_cache_age :: "int option"
  r_comparison :: "comparison option"
  r_cost_analysis :: "cost_analysis option"

text \<open>The object spread \<open>{ ...intent.filters, ...params.filters }\<close>: a key of the second wins.\<close>

definition override :: "'a option \<Rightarrow> 'a option \<Rightarrow> 'a option" where
  "override a b = (case b of None \<Rightarrow> a | Some v \<Rightarrow> Some v)"

definition merge_filters :: "filters \<Rightarrow> filters option \<Rightarrow> filters" where
  "merge_filters a ob =
     (case ob of
        None \<Rightarrow> a
      | Some b \<Rightarrow>
          \<lparr> provider = override (provider a) (provider b),
            free_only = override (free_only a) (free_only b),
            min_context = override (min_context a) (min_context b),
            max_context = override (max_context a) (max_context b),
            max_price_per_1m = override (max_price_per_1m a) (max_price_per_1m b),
            has_vision = override (has_vision a) (has_vision b),
            has_tools = override (has_tools a) (has_tools b),
            has_reasoning = override (has_reasoning a) (has_reasoning b),
            modality_is = override (modality_is a) (modality_is b) \<rparr>)"

definition id_match :: "string list \<Rightarrow> model \<Rightarrow> bool" where
  "id_match ids m =
     list_ex (\<lambda>i. m_id m = i \<or> canonical_slug m = Some i \<or>
                   toLowerCase (m_id m) = toLowerCase i) ids"

definition by_score :: "scored \<Rightarrow> scored \<Rightarrow> jsnum" where
  "by_score a b = js_sub (Fin (of_nat (score b))) (Fin (of_nat (score a)))"

text \<open>\<open>xs.slice(0, n)\<close>: \<open>n\<close> is truncated to an integer; a negative \<open>n\<close> counts from the end.\<close>

definition js_slice0 :: "'a list \<Rightarrow> jsnum \<Rightarrow> 'a list" where
  "js_slice0 xs n =
     (case n of
        Fin q \<Rightarrow>
          (let k = truncate_rat q
           in if k < 0 then take (nat (int (length xs) + k)) xs else take (nat k) xs)
      | PosInf \<Rightarrow> xs
      | _ \<Rightarrow> [])"

definition model_ids_of :: "params \<Rightarrow> string list" where
  "model_ids_of ps = (case arg_model_ids ps of None \<Rightarrow> [] | Some l \<Rightarrow> l)"

definition request_intent :: "params \<Rightarrow> intent" where
  "request_intent ps = parseRequest (case arg_request ps of None \<Rightarrow> [] | Some r \<Rightarrow> r)"

definition combined_filters :: "params \<Rightarrow> filters" where
  "combined_filters ps = merge_filters (i_filters (request_intent ps)) (arg_filters ps)"

text \<open>The records after filtering, restriction to the identifiers, search and sorting.\<close>

definition sorted_models :: "(string \<Rightarrow> string \<Rightarrow> jsnum) \<Rightarrow> params \<Rightarrow> model list \<Rightarrow> model list" where
  "sorted_models coll ps rawModels =
     (let intent = request_intent ps;
          filtered0 = applyFilters rawModels (combined_filters ps);
          filtered = (if model_ids_of ps \<noteq> [] then filter (id_match (model_ids_of ps)) filtered0
                      else filtered0);
          searchResults =
            (if search_terms intent \<noteq> []
             then map s_model (js_sort by_score (searchModels filtered (search_terms intent)))
             else filtered);
          preference = (if sort_preference intent \<noteq> [] then sort_preference intent
                        else ''relevance'');
          sortBy = (case arg_sort_by ps of
                      None \<Rightarrow> preference
                    | Some s \<Rightarrow> if s \<noteq> [] then s else preference)
      in sortModels coll searchResults (Some sortBy))"

definition to_listed :: "fmodel \<Rightarrow> listed" where
  "to_listed m =
     \<lparr> l_id = f_id m, l_name = f_name m, l_provider = f_provider m,
       l_context_length = f_context_length m,
       l_prompt_per_1m = p_prompt_per_1m (f_pricing m),
       l_completion_per_1m = p_completion_per_1m (f_pricing m),
       l_total_per_1m = p_total_per_1m (f_pricing m),
       l_capabilities =
         getCapabilities (Some (f_input_modalities m)) (Some (f_supported_parameters m)),
       l_is_free = f_is_free m,
       l_estimated_cost = f_estimated_cost m \<rparr>"

definition cost_analysis_of :: "workload option \<Rightarrow> fmodel list \<Rightarrow> cost_analysis option" where
  "cost_analysis_of wl results =
     (if wl \<noteq> None \<and> results \<noteq> [] then
        (let costs =
               js_sort (\<lambda>a b. js_sub (co_cost a) (co_cost b))
                 (List.map_filter
                    (\<lambda>m. case f_estimated_cost m of
                           None \<Rightarrow> None
                         | Some c \<Rightarrow> Some \<lparr> co_id = f_id m, co_cost = cost_total c \<rparr>)
                    results)
         in case costs of
              [] \<Rightarrow> None
            | c # _ \<Rightarrow>
                Some \<lparr> cheapest_option = c,
                       most_expensive_option = last costs,
                       potential_savings = js_sub (co_cost (last costs)) (co_cost c) \<rparr>)
      else None)"

definition comparison_of ::
  "params \<Rightarrow> model list \<Rightarrow> js_error + comparison option" where
  "comparison_of ps sortedModels =
     (if 1 < length (model_ids_of ps) then
        (case generateComparison (take (length (model_ids_of ps)) sortedModels) (arg_workload ps) of
           Inl e \<Rightarrow> Inl e
         | Inr c \<Rightarrow> Inr (Some c))
      else Inr None)"

definition consider_fetched ::
  "(string \<Rightarrow> string \<Rightarrow> jsnum) \<Rightarrow> params \<Rightarrow> fetched \<Rightarrow> js_error + response" where
  "consider_fetched coll ps fr =
     (let intent = request_intent ps;
          sortedModels = sorted_models coll ps (models fr)
      in case map_err formatModelData sortedModels of
           Inl e \<Rightarrow> Inl e
         | Inr formatted0 \<Rightarrow>
             (let formatted =
                    (case arg_workload ps of
                       None \<Rightarrow> formatted0
                     | Some wl \<Rightarrow>
                         map (\<lambda>m. m\<lparr> f_estimated_cost := Some (calculateCost m wl) \<rparr>) formatted0);
                  maxResults = (case truthy_opt (arg_max_results ps) of None \<Rightarrow> Fin 10 | Some n \<Rightarrow> n);
                  results = js_slice0 formatted maxResults
              in case comparison_of ps sortedModels of
                   Inl e \<Rightarrow> Inl e
                 | Inr cmp \<Rightarrow>
                     Inr \<lparr> r_interpretation =
                             \<lparr> r_understood_as =
                                 (if understood_as intent \<noteq> [] then understood_as intent
                                  else ''model listing''),
                               r_applied_filters = combined_filters ps,
                               r_search_strategy =
                                 (if search_terms intent \<noteq> [] then ''keyword search''
                                  else ''filtered list''),
                               r_search_terms = search_terms intent \<rparr>,
                           r_models = map to_listed results,
                           r_total_models_found = length formatted,
                           r_models_returned = length results,
                           r_cache_age = (if cached fr then Some (cache_age fr) else None),
                           r_comparison = cmp,
                           r_cost_analysis = cost_analysis_of (arg_workload ps) results \<rparr>))"

definition considerModels ::
  "(string \<Rightarrow> string \<Rightarrow> jsnum) \<Rightarrow> params \<Rightarrow> int \<Rightarrow> reply \<Rightarrow> world
     \<Rightarrow> (js_error + response) \<times> world" where
  "considerModels coll ps now rep w =
     (case fetchModels (arg_force_refresh ps = Some True) now rep w of
        (Inl e, w') \<Rightarrow> (Inl e, w')
      | (Inr fr, w') \<Rightarrow> (consider_fetched coll ps fr, w'))"

subsection \<open>Sample inputs\<close>

text \<open>
  Upstream records as the catalogue delivers them (prices as decimal text, none of the
  derived per-million fields), an empty cache, a successful reply and an empty request.
\<close>

definition upstream_pricing :: "string \<Rightarrow> string \<Rightarrow> pricing" where
  "upstream_pricing p c =
     \<lparr> prompt = Str p, completion = Str c, request = Str ''0'', image_fee = Str ''0'',
       web_search = Undefined, internal_reasoning = Undefined, input_cache_read = Undefined,
       prompt_per_1m = Undefined, completion_per_1m = Undefined, total_per_1m = Undefined \<rparr>"

definition upstream_model :: "string \<Rightarrow> string \<Rightarrow> string \<Rightarrow> string \<Rightarrow> string \<Rightarrow> model" where
  "upstream_model i n d p c =
     \<lparr> m_id = i, canonical_slug = Some i, name = n, hugging_face_id = None,
       context_length = Fin 8192, created = Fin 1700000000, description = d,
       architecture = None, pricing = upstream_pricing p c, top_provider = None,
       supported_parameters = None \<rparr>"

definition fresh_world :: world where
  "fresh_world = \<lparr> modelsCache = \<lparr> data = None, timestamp = None \<rparr>, upstream_calls = 0 \<rparr>"

definition ok_reply :: "model list \<Rightarrow> reply" where
  "ok_reply ms = Response True 200 ''OK'' (Some ms)"

definition no_params :: params where
  "no_params =
     \<lparr> arg_request = None, arg_filters = None, arg_model_ids = None, arg_workload = None,
       arg_max_results = None, arg_sort_by = None, arg_force_refresh = None \<rparr>"

definition no_workload :: workload where
  "no_workload =
     \<lparr> prompt_tokens = None, completion_tokens = None, requests_per_day = None,
       requests_per_month = None, images = None \<rparr>"

definition turbo_model :: model where
  "turbo_model =
     upstream_model ''openai/gpt-4-turbo'' ''OpenAI: GPT-4 Turbo'' ''A large model'' ''0.00001'' ''0.00003''"

definition exact_model :: model where
  "exact_model = upstream_model ''gpt-4'' ''Base'' ''The base model'' ''0.00003'' ''0.00006''"

definition tenth_model :: model where
  "tenth_model = upstream_model ''acme/alpha'' ''Alpha'' ''A model'' ''0.1'' ''0.2''"

definition free_model :: model where
  "free_model = upstream_model ''acme/free'' ''Gratis'' ''A free model'' ''0'' ''0''"

definition bare_model :: model where
  "bare_model = upstream_model ''gpt4'' ''Bare'' ''No namespace'' ''abc'' ''0''"

definition fee_model :: model where
  "fee_model =
     (upstream_model ''acme/fee'' ''Fee'' ''Charges per request'' ''0'' ''0'')
       \<lparr> pricing := (upstream_pricing ''0'' ''0'')\<lparr> request := Str ''0.5'' \<rparr> \<rparr>"

definition split_model :: model where
  "split_model = upstream_model ''x/1'' ''Open'' ''AI'' ''0'' ''0''"

definition daily_workload :: workload where
  "daily_workload = no_workload\<lparr> requests_per_day := Some (Fin 2) \<rparr>"

definition warm_world :: world where
  "warm_world =
     \<lparr> modelsCache = \<lparr> data = Some [free_model], timestamp = Some 1000 \<rparr>, upstream_calls = 1 \<rparr>"

definition tie_a :: model where
  "tie_a = upstream_model ''acme/a'' ''Model A'' ''First'' ''0.000001'' ''0.000002''"

definition tie_b :: model where
  "tie_b = upstream_model ''acme/b'' ''Model B'' ''Second'' ''0.000001'' ''0.000002''"

definition ids_params :: "string list \<Rightarrow> params" where
  "ids_params ids = no_params\<lparr> arg_request := Some [], arg_model_ids := Some ids \<rparr>"

text \<open>A record that carries the derived per-million prices as numbers beside the price text.\<close>

definition priced_model :: model where
  "priced_model =
     exact_model\<lparr> pricing := (pricing exact_model)
       \<lparr> prompt_per_1m := Num (Fin 30), completion_per_1m := Num (Fin 60),
         total_per_1m := Num (Fin 90) \<rparr> \<rparr>"

definition other_priced :: model where
  "other_priced = priced_model\<lparr> m_id := ''other'', canonical_slug := Some ''other'' \<rparr>"

text \<open>A record whose creation time lies beyond the range of dates.\<close>

definition far_model :: model where
  "far_model = free_model\<lparr> created := Fin 9000000000000 \<rparr>"

definition two_priced :: fetched where
  "two_priced = \<lparr> models = [priced_model, other_priced], cache_age = 0, cached = False \<rparr>"

definition fee_formatted :: fmodel where
  "fee_formatted = projr (formatModelData fee_model)"

section \<open>Properties\<close>

subsection \<open>Auxiliary facts\<close>

lemma toISOString_error: "toISOString t = Inl e \<Longrightarrow> e = RangeError"
  by (auto simp: toISOString_def split: jsnum.splits if_splits)

lemma formatModelData_error: "formatModelData m = Inl e \<Longrightarrow> e = RangeError"
  by (auto simp: formatModelData_def split: sum.splits dest: toISOString_error)

lemma formatModelData_isl:
  "isl (formatModelData m) \<longleftrightarrow> isl (toISOString (js_mul (created m) (Fin 1000)))"
  by (auto simp: formatModelData_def split: sum.splits)

lemma formatModelData_not_missing: "formatModelData m \<noteq> Inl (ModelNotFound i)"
proof
  assume "formatModelData m = Inl (ModelNotFound i)"
  then have "ModelNotFound i = RangeError" by (rule formatModelData_error)
  then show False by simp
qed

lemma formatModelData_fields:
  assumes "formatModelData m = Inr f"
  shows "f_pricing f = formatPricing (pricing m)" and "f_is_free f = isFree (pricing m)"
    and "f_provider f = extractProvider (m_id m)" and "f_id f = m_id m"
  using assms by (auto simp: formatModelData_def split: sum.splits)

lemma upstream_model_formats:
  "formatModelData (upstream_model i n d p c) = Inr (projr (formatModelData (upstream_model i n d p c)))"
proof -
  have "js_mul (Fin 1700000000) (Fin 1000) = Fin 1700000000000" by code_simp
  then have "\<not> isl (formatModelData (upstream_model i n d p c))"
    by (simp add: formatModelData_isl upstream_model_def toISOString_def)
  then show ?thesis by simp
qed

lemma js_split_hd: "\<exists>ps. js_split sep s = takeWhile (\<lambda>c. c \<noteq> sep) s # ps"
  by (induction s) (auto split: list.splits)

lemma extractProvider_takeWhile:
  "extractProvider modelId = takeWhile (\<lambda>c. c \<noteq> CHR ''/'') modelId"
proof -
  obtain ps where "js_split CHR ''/'' modelId = takeWhile (\<lambda>c. c \<noteq> CHR ''/'') modelId # ps"
    using js_split_hd by blast
  then show ?thesis by (simp add: extractProvider_def)
qed

lemma parseFloat_no_number:
  assumes "\<not> is_space c" "\<not> is_digit c" "c \<notin> set ''+-.I''"
  shows "parseFloat (c # s) = NaN"
  using assms by (auto simp: parseFloat_def parse_unsigned_def Let_def)

lemma fresh_fetch:
  "fetchModels False now (ok_reply ms) fresh_world =
     (Inr \<lparr> models = ms, cache_age = 0, cached = False \<rparr>,
      \<lparr> modelsCache = \<lparr> data = Some ms, timestamp = Some now \<rparr>, upstream_calls = Suc 0 \<rparr>)"
  by (simp add: fetchModels_def cache_lookup_def fresh_world_def ok_reply_def)

lemma find_first:
  "find P xs = Some x \<Longrightarrow> \<exists>pre post. xs = pre @ x # post \<and> P x \<and> (\<forall>y\<in>set pre. \<not> P y)"
proof (induction xs)
  case Nil
  then show ?case by simp
next
  case (Cons a xs)
  show ?case
  proof (cases "P a")
    case True
    with Cons.prems have "x = a" by simp
    with True have "a # xs = [] @ x # xs \<and> P x \<and> (\<forall>y\<in>set []. \<not> P y)" by simp
    then show ?thesis by blast
  next
    case False
    with Cons.prems have "find P xs = Some x" by simp
    then obtain pre post where "xs = pre @ x # post" "P x" "\<forall>y\<in>set pre. \<not> P y"
      using Cons.IH by blast
    with False have "a # xs = (a # pre) @ x # post \<and> P x \<and> (\<forall>y\<in>set (a # pre). \<not> P y)"
      by simp
    then show ?thesis by blast
  qed
qed

lemma getModel_found:
  assumes "fetchModels False now rep w = (Inr r, w')"
    and "find (lookup_match modelId) (models r) = Some m"
  shows "fst (getModel modelId now rep w) = formatModelData m"
  unfolding getModel_def using assms by simp

lemma getModel_not_found:
  assumes "fetchModels False now rep w = (Inr r, w')"
    and "find (lookup_match modelId) (models r) = None"
  shows "fst (getModel modelId now rep w) = Inl (ModelNotFound modelId)"
  unfolding getModel_def using assms by simp

subsection \<open>Lookup\<close>

text \<open>
  Claim C1, as the code has it. \<open>getModel\<close> tests every record against the disjunction of the
  four criteria (exact \<open>id\<close>, exact \<open>canonical_slug\<close>, case-insensitive \<open>id\<close>, display name
  containing the identifier) in one \<open>find\<close>: the result is the first record of the snapshot
  that matches any of them, whichever criterion it is, and the lookup fails with
  \<open>ModelNotFound\<close> exactly when no record matches any criterion.
\<close>

theorem getModel_first_match:
  assumes "fetchModels False now rep w = (Inr r, w')"
  shows "(fst (getModel modelId now rep w) = Inl (ModelNotFound modelId) \<longleftrightarrow>
            (\<forall>m\<in>set (models r). \<not> lookup_match modelId m))
       \<and> ((\<exists>m\<in>set (models r). lookup_match modelId m) \<longrightarrow>
            (\<exists>pre m post. models r = pre @ m # post \<and> (\<forall>x\<in>set pre. \<not> lookup_match modelId x) \<and>
               lookup_match modelId m \<and> fst (getModel modelId now rep w) = formatModelData m))"
proof (cases "find (lookup_match modelId) (models r)")
  case None
  then have none: "\<forall>m\<in>set (models r). \<not> lookup_match modelId m"
    unfolding find_None_iff by blast
  have "fst (getModel modelId now rep w) = Inl (ModelNotFound modelId)"
    using assms None by (rule getModel_not_found)
  with none show ?thesis by blast
next
  case (Some m)
  obtain pre post where split: "models r = pre @ m # post" "lookup_match modelId m"
      "\<forall>y\<in>set pre. \<not> lookup_match modelId y"
    using find_first [OF Some] by blast
  have res: "fst (getModel modelId now rep w) = formatModelData m"
    using assms Some by (rule getModel_found)
  have mem: "m \<in> set (models r)" using split(1) by simp
  have first: "fst (getModel modelId now rep w) \<noteq> Inl (ModelNotFound modelId)"
    unfolding res by (rule formatModelData_not_missing)
  have left: "\<not> (\<forall>m\<in>set (models r). \<not> lookup_match modelId m)"
    using mem split(2) by blast
  have right: "\<exists>pre m post. models r = pre @ m # post \<and> (\<forall>x\<in>set pre. \<not> lookup_match modelId x) \<and>
               lookup_match modelId m \<and> fst (getModel modelId now rep w) = formatModelData m"
    using split res by blast
  show ?thesis using first left right by blast
qed

text \<open>
  The theorem at a snapshot of two records: an identifier that matches nothing is not found,
  and the spec's scenario \<open>GPT-4\<close> is found through the display name.
\<close>

theorem getModel_first_match_witness:
  "fst (getModel ''mistral'' 1000 (ok_reply [turbo_model, exact_model]) fresh_world) =
     Inl (ModelNotFound ''mistral'')
   \<and> (\<exists>pre m post. [turbo_model, exact_model] = pre @ m # post \<and>
         (\<forall>x\<in>set pre. \<not> lookup_match ''GPT-4'' x) \<and> lookup_match ''GPT-4'' m \<and>
         fst (getModel ''GPT-4'' 1000 (ok_reply [turbo_model, exact_model]) fresh_world) =
           formatModelData m)"
proof -
  have none: "\<forall>m\<in>set [turbo_model, exact_model]. \<not> lookup_match ''mistral'' m"
    by code_simp
  have some: "\<exists>m\<in>set [turbo_model, exact_model]. lookup_match ''GPT-4'' m"
    by code_simp
  show ?thesis
    using getModel_first_match [OF fresh_fetch, of "''mistral''" 1000 "[turbo_model, exact_model]"]
      getModel_first_match [OF fresh_fetch, of "''GPT-4''" 1000 "[turbo_model, exact_model]"]
      none some
    unfolding fetched.select_convs by blast
qed

text \<open>
  The claim as stated fails: \<open>exact_model\<close> has the identifier \<open>gpt-4\<close> itself, yet the lookup
  of \<open>gpt-4\<close> returns \<open>turbo_model\<close>, which stands earlier in the snapshot and matches through
  its display name only.
\<close>

theorem getModel_ignores_priority:
  "map_sum id f_id (fst (getModel ''gpt-4'' 1000 (ok_reply [turbo_model, exact_model]) fresh_world))
     = Inr ''openai/gpt-4-turbo''
   \<and> m_id exact_model = ''gpt-4''
   \<and> m_id turbo_model \<noteq> ''gpt-4''
   \<and> canonical_slug turbo_model \<noteq> Some ''gpt-4''
   \<and> toLowerCase (m_id turbo_model) \<noteq> toLowerCase ''gpt-4''
   \<and> str_includes (toLowerCase (name turbo_model)) (toLowerCase ''gpt-4'')"
  by code_simp

subsection \<open>Normalized pricing\<close>

text \<open>
  Claim C4, as the code has it. On every normalized record, \<open>is_free\<close> holds if and only if
  the prompt and the completion price both equal zero, the two per-million prices are the
  per-token prices times \<open>1e6\<close>, and \<open>total_per_1m\<close> is the sum of the two per-token prices
  times \<open>1e6\<close> (one addition, then one multiplication, each rounded once).
\<close>

theorem formatModelData_pricing_invariants:
  "formatModelData m = Inr f \<Longrightarrow>
     (f_is_free f \<longleftrightarrow> js_strict_eq (p_prompt (f_pricing f)) (Fin 0) \<and>
                       js_strict_eq (p_completion (f_pricing f)) (Fin 0))
   \<and> p_prompt_per_1m (f_pricing f) = js_mul (p_prompt (f_pricing f)) (Fin 1000000)
   \<and> p_completion_per_1m (f_pricing f) = js_mul (p_completion (f_pricing f)) (Fin 1000000)
   \<and> p_total_per_1m (f_pricing f) =
       js_mul (js_add (p_prompt (f_pricing f)) (p_completion (f_pricing f))) (Fin 1000000)"
  by (simp add: formatModelData_fields formatPricing_def isFree_def Let_def)

theorem formatModelData_pricing_invariants_witness:
  "formatModelData free_model = Inr (projr (formatModelData free_model))
   \<and> f_is_free (projr (formatModelData free_model))
   \<and> js_strict_eq (p_prompt (f_pricing (projr (formatModelData free_model)))) (Fin 0)
   \<and> p_total_per_1m (f_pricing (projr (formatModelData free_model))) =
       js_mul (js_add (p_prompt (f_pricing (projr (formatModelData free_model))))
                 (p_completion (f_pricing (projr (formatModelData free_model))))) (Fin 1000000)"
proof -
  have h: "formatModelData free_model = Inr (projr (formatModelData free_model))"
    unfolding free_model_def by (rule upstream_model_formats)
  have free: "f_is_free (projr (formatModelData free_model))"
    by code_simp
  show ?thesis
    using formatModelData_pricing_invariants [OF h] h free by blast
qed

text \<open>
  The claim as stated fails: for the prices \<open>0.1\<close> and \<open>0.2\<close> the two per-million prices are
  \<open>100000\<close> and \<open>200000\<close>, whose sum is \<open>300000\<close>, while \<open>total_per_1m\<close> is
  \<open>300000.00000000006\<close>.
\<close>

theorem total_per_1m_differs_from_sum:
  "map_sum id
     (\<lambda>f. (p_prompt_per_1m (f_pricing f), p_completion_per_1m (f_pricing f),
            js_add (p_prompt_per_1m (f_pricing f)) (p_completion_per_1m (f_pricing f)),
            p_total_per_1m (f_pricing f)))
     (formatModelData tenth_model)
   = Inr (Fin 100000, Fin 200000, Fin 300000, Fin (5153960755200001 / 17179869184))"
  by code_simp

subsection \<open>Normalization\<close>

text \<open>
  Claim C10, as the code has it. \<open>formatModelData\<close> fails only with \<open>RangeError\<close>, and exactly
  when \<open>created * 1000\<close> is not a valid time value: no missing optional field makes it fail.
  The provider is the text of \<open>id\<close> before the first slash, which is the whole \<open>id\<close> when
  there is no slash. An absent or empty price is zero; any other price text goes through
  \<open>parseFloat\<close>, which yields \<open>NaN\<close> (not zero) for a text that does not start a number.
\<close>

theorem formatModelData_normalization:
  "(isl (formatModelData m) \<longleftrightarrow> isl (toISOString (js_mul (created m) (Fin 1000))))
   \<and> (\<forall>e. formatModelData m = Inl e \<longrightarrow> e = RangeError)
   \<and> (\<forall>f. formatModelData m = Inr f \<longrightarrow>
         f_provider f = takeWhile (\<lambda>c. c \<noteq> CHR ''/'') (m_id m)
       \<and> p_prompt (f_pricing f) = parsePrice (prompt (pricing m))
       \<and> p_completion (f_pricing f) = parsePrice (completion (pricing m)))
   \<and> parsePrice Undefined = Fin 0 \<and> parsePrice (Str []) = Fin 0
   \<and> (\<forall>s. s \<noteq> [] \<longrightarrow> parsePrice (Str s) = parseFloat s)
   \<and> (\<forall>c s. \<not> is_space c \<and> \<not> is_digit c \<and> c \<notin> set ''+-.I'' \<longrightarrow> parseFloat (c # s) = NaN)"
  using formatModelData_error formatModelData_isl parseFloat_no_number
  by (auto simp: formatModelData_fields extractProvider_takeWhile formatPricing_def Let_def
        parsePrice_def)

theorem formatModelData_normalization_witness:
  "formatModelData free_model = Inr (projr (formatModelData free_model))
   \<and> f_provider (projr (formatModelData free_model)) =
       takeWhile (\<lambda>c. c \<noteq> CHR ''/'') (m_id free_model)
   \<and> formatModelData far_model = Inl RangeError
   \<and> parsePrice (Str ''0'') = parseFloat ''0''
   \<and> parseFloat (CHR ''a'' # ''bc'') = NaN"
proof -
  have h: "formatModelData free_model = Inr (projr (formatModelData free_model))"
    unfolding free_model_def by (rule upstream_model_formats)
  have c: "\<not> is_space CHR ''a'' \<and> \<not> is_digit CHR ''a'' \<and> CHR ''a'' \<notin> set ''+-.I''"
    by (simp add: is_space_def is_digit_def)
  have s: "''0'' \<noteq> []" by simp
  have bad: "isl (toISOString (js_mul (created far_model) (Fin 1000)))"
    by code_simp
  have "isl (formatModelData far_model)"
    using formatModelData_normalization [of far_model] bad by blast
  then have "formatModelData far_model = Inl (projl (formatModelData far_model))"
    by simp
  then have u: "formatModelData far_model = Inl RangeError"
    using formatModelData_normalization [of far_model] by metis
  show ?thesis
    using formatModelData_normalization [of free_model] h c s u by blast
qed

text \<open>
  The claim as stated fails: the identifier \<open>gpt4\<close> has no separator and its provider is
  \<open>gpt4\<close>, not the empty string; the price text \<open>abc\<close> becomes \<open>NaN\<close>, not zero.
\<close>

theorem provider_and_price_fallbacks:
  "map_sum id (\<lambda>f. (f_provider f, p_prompt (f_pricing f), f_is_free f))
     (formatModelData bare_model) = Inr (''gpt4'', NaN, False)
   \<and> extractProvider ''gpt4'' = ''gpt4''
   \<and> parsePrice (Str ''abc'') = NaN"
  by code_simp

subsection \<open>The cache\<close>

text \<open>
  Claim C5. A snapshot exists when the cache holds data and a timestamp other than \<open>0\<close>.
  Without \<open>forceRefresh\<close>, a snapshot younger than the TTL is returned as it is, flagged as
  cached, with its age in whole seconds, and nothing is sent upstream. In every other case
  one request is sent: a transport failure or a response that is not \<open>ok\<close> makes the call
  fail, the cache stays as it was and no older snapshot is returned; a successful response
  replaces the snapshot and is returned with age \<open>0\<close>, not flagged as cached.
\<close>

theorem fetchModels_cache_policy:
  "(\<not> forceRefresh \<and> data (modelsCache w) = Some d \<and> timestamp (modelsCache w) = Some t \<and>
      t \<noteq> 0 \<and> now - t < CACHE_DURATION_MS \<longrightarrow>
      fetchModels forceRefresh now rep w =
        (Inr \<lparr> models = d, cache_age = (now - t) div 1000, cached = True \<rparr>, w))
   \<and> (cache_lookup forceRefresh now (modelsCache w) = None \<longrightarrow>
      upstream_calls (snd (fetchModels forceRefresh now rep w)) = Suc (upstream_calls w)
      \<and> (rep = NetworkFailure \<longrightarrow>
            fetchModels forceRefresh now rep w =
              (Inl NetworkError, w\<lparr> upstream_calls := Suc (upstream_calls w) \<rparr>))
      \<and> (\<forall>status statusText body. rep = Response False status statusText body \<longrightarrow>
            fetchModels forceRefresh now rep w =
              (Inl (ApiError status statusText), w\<lparr> upstream_calls := Suc (upstream_calls w) \<rparr>))
      \<and> (\<forall>status statusText fresh. rep = Response True status statusText (Some fresh) \<longrightarrow>
            fetchModels forceRefresh now rep w =
              (Inr \<lparr> models = fresh, cache_age = 0, cached = False \<rparr>,
               \<lparr> modelsCache = \<lparr> data = Some fresh, timestamp = Some now \<rparr>,
                 upstream_calls = Suc (upstream_calls w) \<rparr>)))
   \<and> (cache_lookup forceRefresh now (modelsCache w) = None \<longleftrightarrow>
        forceRefresh \<or> data (modelsCache w) = None \<or> timestamp (modelsCache w) = None \<or>
        timestamp (modelsCache w) = Some 0 \<or>
        (\<exists>t. timestamp (modelsCache w) = Some t \<and> CACHE_DURATION_MS \<le> now - t))"
  by (cases rep; cases w) (auto simp: fetchModels_def cache_lookup_def Let_def split: option.splits)

text \<open>
  A snapshot taken at \<open>1000\<close> is served at \<open>61500\<close> with an age of \<open>60\<close> seconds; at \<open>700000\<close>
  it has expired, and a failing transport fails the call.
\<close>

theorem fetchModels_cache_policy_witness:
  "fetchModels False 61500 NetworkFailure warm_world =
     (Inr \<lparr> models = [free_model], cache_age = 60, cached = True \<rparr>, warm_world)
   \<and> fetchModels False 700000 NetworkFailure warm_world =
     (Inl NetworkError, warm_world\<lparr> upstream_calls := Suc (upstream_calls warm_world) \<rparr>)
   \<and> fetchModels True 61500 (Response False 503 ''Service Unavailable'' None) warm_world =
     (Inl (ApiError 503 ''Service Unavailable''),
      warm_world\<lparr> upstream_calls := Suc (upstream_calls warm_world) \<rparr>)
   \<and> fetchModels False 700000 (Response True 200 ''OK'' (Some [exact_model])) warm_world =
     (Inr \<lparr> models = [exact_model], cache_age = 0, cached = False \<rparr>,
      \<lparr> modelsCache = \<lparr> data = Some [exact_model], timestamp = Some 700000 \<rparr>,
        upstream_calls = Suc (upstream_calls warm_world) \<rparr>)"
proof -
  have hit: "\<not> False \<and> data (modelsCache warm_world) = Some [free_model] \<and>
      timestamp (modelsCache warm_world) = Some 1000 \<and> (1000::int) \<noteq> 0 \<and>
      61500 - 1000 < CACHE_DURATION_MS"
    by (simp add: warm_world_def CACHE_DURATION_MS_def)
  have miss: "cache_lookup False 700000 (modelsCache warm_world) = None"
    by (simp add: warm_world_def CACHE_DURATION_MS_def cache_lookup_def)
  have forced: "cache_lookup True 61500 (modelsCache warm_world) = None"
    by (simp add: cache_lookup_def)
  have age: "(61500 - 1000) div 1000 = (60::int)" by simp
  have a: "fetchModels False 61500 NetworkFailure warm_world =
     (Inr \<lparr> models = [free_model], cache_age = 60, cached = True \<rparr>, warm_world)"
    using fetchModels_cache_policy [where forceRefresh = False and w = warm_world
        and d = "[free_model]" and t = 1000 and now = 61500 and rep = NetworkFailure]
      hit age
    by metis
  have b: "fetchModels False 700000 NetworkFailure warm_world =
     (Inl NetworkError, warm_world\<lparr> upstream_calls := Suc (upstream_calls warm_world) \<rparr>)"
    using fetchModels_cache_policy [where forceRefresh = False and w = warm_world
        and now = 700000 and rep = NetworkFailure] miss
    by blast
  have c: "fetchModels True 61500 (Response False 503 ''Service Unavailable'' None) warm_world =
     (Inl (ApiError 503 ''Service Unavailable''),
      warm_world\<lparr> upstream_calls := Suc (upstream_calls warm_world) \<rparr>)"
    using fetchModels_cache_policy [where forceRefresh = True and w = warm_world
        and now = 61500 and rep = "Response False 503 ''Service Unavailable'' None"] forced
    by blast
  have d: "fetchModels False 700000 (Response True 200 ''OK'' (Some [exact_model])) warm_world =
     (Inr \<lparr> models = [exact_model], cache_age = 0, cached = False \<rparr>,
      \<lparr> modelsCache = \<lparr> data = Some [exact_model], timestamp = Some 700000 \<rparr>,
        upstream_calls = Suc (upstream_calls warm_world) \<rparr>)"
    using fetchModels_cache_policy [where forceRefresh = False and w = warm_world
        and now = 700000 and rep = "Response True 200 ''OK'' (Some [exact_model])"] miss
    by blast
  show ?thesis using a b c d by blast
qed

subsection \<open>Cost estimates\<close>

lemma truthy_opt_None_iff:
  "truthy_opt v = None \<longleftrightarrow> v = None \<or> (\<exists>n. v = Some n \<and> \<not> js_truthy n)"
  by (auto simp: truthy_opt_def or_undefined_def split: option.splits)

text \<open>
  Claim C3, as the code has it. The total is the sum, added in this order from zero, of
  the prompt cost, the completion cost, the daily request cost, the monthly request cost
  when \<open>requests_per_month\<close> is given, and the image cost, each as far as it was computed.
  A component is absent from the breakdown exactly when its workload field is absent or
  falsy (zero or \<open>NaN\<close>); \<open>monthly_request_cost\<close> is also present when only
  \<open>requests_per_day\<close> is given (thirty times the daily cost), and then it is not part of the
  total. \<open>per_request\<close> is absent exactly when both request counts are absent or falsy.
\<close>

theorem calculateCost_total_and_breakdown:
  "cost_total (calculateCost m wl) =
     foldl js_add (Fin 0)
       (List.map_filter id
          [prompt_cost (cost_breakdown (calculateCost m wl)),
           completion_cost (cost_breakdown (calculateCost m wl)),
           daily_request_cost (cost_breakdown (calculateCost m wl)),
           (if truthy_opt (requests_per_month wl) = None then None
            else monthly_request_cost (cost_breakdown (calculateCost m wl))),
           image_cost (cost_breakdown (calculateCost m wl))])
   \<and> (prompt_cost (cost_breakdown (calculateCost m wl)) = None \<longleftrightarrow>
        truthy_opt (prompt_tokens wl) = None)
   \<and> (completion_cost (cost_breakdown (calculateCost m wl)) = None \<longleftrightarrow>
        truthy_opt (completion_tokens wl) = None)
   \<and> (daily_request_cost (cost_breakdown (calculateCost m wl)) = None \<longleftrightarrow>
        truthy_opt (requests_per_day wl) = None)
   \<and> (monthly_request_cost (cost_breakdown (calculateCost m wl)) = None \<longleftrightarrow>
        truthy_opt (requests_per_day wl) = None \<and> truthy_opt (requests_per_month wl) = None)
   \<and> (image_cost (cost_breakdown (calculateCost m wl)) = None \<longleftrightarrow>
        truthy_opt (images wl) = None)
   \<and> (per_request (calculateCost m wl) = None \<longleftrightarrow>
        truthy_opt (requests_per_day wl) = None \<and> truthy_opt (requests_per_month wl) = None)"
  by (cases "truthy_opt (prompt_tokens wl)"; cases "truthy_opt (completion_tokens wl)";
      cases "truthy_opt (requests_per_day wl)"; cases "truthy_opt (requests_per_month wl)";
      cases "truthy_opt (images wl)")
     (simp_all add: calculateCost_def add_prompt_def add_completion_def add_daily_def
        add_monthly_def add_images_def empty_breakdown_def Let_def)

theorem calculateCost_total_and_breakdown_witness:
  "(per_request (calculateCost fee_formatted no_workload) = None)
   \<and> (prompt_cost (cost_breakdown (calculateCost fee_formatted no_workload)) = None)
   \<and> (daily_request_cost (cost_breakdown (calculateCost fee_formatted daily_workload)) \<noteq> None)"
proof -
  have a: "truthy_opt (requests_per_day no_workload) = None"
     "truthy_opt (requests_per_month no_workload) = None"
     "truthy_opt (prompt_tokens no_workload) = None"
    by (simp_all add: no_workload_def truthy_opt_def)
  have b: "truthy_opt (requests_per_day daily_workload) \<noteq> None"
    by (simp add: daily_workload_def no_workload_def truthy_opt_def or_undefined_def js_truthy_def)
  show ?thesis
    using calculateCost_total_and_breakdown [of fee_formatted no_workload]
      calculateCost_total_and_breakdown [of fee_formatted daily_workload] a b
    by blast
qed

text \<open>
  The claim as stated fails: for a request fee of \<open>0.5\<close> and two requests per day the
  breakdown holds the daily cost \<open>1\<close> and the monthly cost \<open>30\<close>, and the total is \<open>1\<close>, not
  their sum \<open>31\<close>.
\<close>

theorem calculateCost_total_omits_monthly_projection:
  "formatModelData fee_model = Inr fee_formatted
   \<and> cost_total (calculateCost fee_formatted daily_workload) = Fin 1
   \<and> cost_breakdown (calculateCost fee_formatted daily_workload) =
       \<lparr> prompt_cost = None, completion_cost = None, daily_request_cost = Some (Fin 1),
         monthly_request_cost = Some (Fin 30), image_cost = None \<rparr>
   \<and> js_add (Fin 1) (Fin 30) = Fin 31"
  by code_simp

subsection \<open>Search\<close>

lemma count_loop:
  "foldl (\<lambda>sc t. if P t then sc + 1 else sc) (a::nat) ts = a + length (filter P ts)"
  by (induction ts arbitrary: a) auto

lemma score_terms_count:
  "score_terms m ts = length (filter (\<lambda>t. str_includes (searchableText m) (toLowerCase t)) ts)"
  by (simp add: score_terms_def count_loop)

lemma distinct_filter_card:
  "distinct ts \<Longrightarrow> length (filter P ts) = card {t \<in> set ts. P t}"
proof -
  assume "distinct ts"
  then have "distinct (filter P ts)" by simp
  then have "card (set (filter P ts)) = length (filter P ts)" by (rule distinct_card)
  then show ?thesis by simp
qed

lemma searchModels_nonempty:
  "searchTerms \<noteq> [] \<Longrightarrow>
      searchModels ms searchTerms =
        map (\<lambda>m. \<lparr> s_model = m, score = score_terms m searchTerms \<rparr>)
          (filter (\<lambda>m. 0 < score_terms m searchTerms) ms)"
  by (induction ms) (simp_all add: searchModels_def)

lemma searchModels_empty: "searchModels ms [] = map (\<lambda>m. \<lparr> s_model = m, score = 1 \<rparr>) ms"
  by (simp add: searchModels_def)

text \<open>The search terms that \<open>parseRequest\<close> produces never repeat.\<close>

lemma subseq_optional: "subseq (if b then l else []) l"
  by simp

lemma parseRequest_terms_subseq:
  "subseq (search_terms (parseRequest req))
     ([''vision'', ''multimodal''] @ [''tools'', ''function''] @ [''reasoning''] @ [''instruct''] @
      [''chat''] @ known_providers)"
  unfolding parseRequest_def Let_def intent.select_convs
  by (intro list_emb_append_mono subseq_optional subseq_filter_left)

lemma subseq_distinct: "subseq xs ys \<Longrightarrow> distinct ys \<Longrightarrow> distinct xs"
proof (induction rule: list_emb.induct)
  case (list_emb_Nil ys)
  show ?case by simp
next
  case (list_emb_Cons xs ys y)
  then show ?case by simp
next
  case (list_emb_Cons2 x y xs ys)
  have "x \<notin> set xs"
  proof
    assume "x \<in> set xs"
    with list_emb_Cons2.hyps(2) obtain z where "z \<in> set ys" "x = z"
      by (rule list_emb_set)
    with list_emb_Cons2.hyps(1) list_emb_Cons2.prems show False by simp
  qed
  with list_emb_Cons2 show ?case by simp
qed

lemma parseRequest_terms_distinct: "distinct (search_terms (parseRequest req))"
proof -
  have "distinct ([''vision'', ''multimodal''] @ [''tools'', ''function''] @ [''reasoning''] @
      [''instruct''] @ [''chat''] @ known_providers)"
    by (simp add: known_providers_def)
  then show ?thesis using parseRequest_terms_subseq subseq_distinct by blast
qed

text \<open>
  Claim C7, as the code has it. The searchable text of a record is its display name, its
  description and its identifier joined by single spaces, in lower case. The score of a
  record is the number of entries of the search-term list that occur in that text after
  lower-casing; for a list without repetitions this is the number of distinct terms found.
  With a non-empty term list the result holds exactly the records of score above \<open>0\<close>, in
  input order; with an empty list every record has score \<open>1\<close>, in input order.
\<close>

theorem searchModels_scoring:
  "(searchTerms \<noteq> [] \<longrightarrow>
      searchModels ms searchTerms =
        map (\<lambda>m. \<lparr> s_model = m, score = score_terms m searchTerms \<rparr>)
          (filter (\<lambda>m. 0 < score_terms m searchTerms) ms))
   \<and> score_terms m searchTerms =
       length (filter (\<lambda>t. str_includes (searchableText m) (toLowerCase t)) searchTerms)
   \<and> (distinct searchTerms \<longrightarrow>
       score_terms m searchTerms =
         card {t \<in> set searchTerms. str_includes (searchableText m) (toLowerCase t)})
   \<and> searchableText m = toLowerCase (name m @ '' '' @ description m @ '' '' @ m_id m)
   \<and> searchModels ms [] = map (\<lambda>m. \<lparr> s_model = m, score = 1 \<rparr>) ms"
  using searchModels_nonempty [of searchTerms ms] searchModels_empty [of ms]
    score_terms_count [of m searchTerms]
    distinct_filter_card [of searchTerms "\<lambda>t. str_includes (searchableText m) (toLowerCase t)"]
  by (simp add: searchableText_def)

theorem searchModels_scoring_witness:
  "searchModels [split_model] [''open'', ''ai''] =
     map (\<lambda>m. \<lparr> s_model = m, score = score_terms m [''open'', ''ai''] \<rparr>)
       (filter (\<lambda>m. 0 < score_terms m [''open'', ''ai'']) [split_model])
   \<and> score_terms split_model [''open'', ''ai''] =
       card {t \<in> set [''open'', ''ai'']. str_includes (searchableText split_model) (toLowerCase t)}"
proof -
  have a: "[''open'', ''ai''] \<noteq> []" and b: "distinct [''open'', ''ai'']"
    by simp_all
  show ?thesis
    using searchModels_scoring [of "[''open'', ''ai'']" "[split_model]" split_model] a b
    by blast
qed

text \<open>
  The claim as stated fails: the record named \<open>Open\<close> with the description \<open>AI\<close> contains
  \<open>openai\<close> in the concatenation of its name, description and identifier, but the code
  puts a space between the fields, scores the record \<open>0\<close> for the term \<open>openai\<close> and leaves
  it out.
\<close>

theorem searchModels_separates_fields:
  "searchModels [split_model] [''openai''] = []
   \<and> str_includes
       (toLowerCase (name split_model @ description split_model @ m_id split_model))
       (toLowerCase ''openai'')"
  by code_simp

subsection \<open>Sorting\<close>































subsection \<open>Comparison\<close>

lemma map_err_Inl: "map_err f xs = Inl e \<Longrightarrow> \<exists>x\<in>set xs. f x = Inl e"
  by (induction xs) (auto split: sum.splits)

lemma reduce1_Inl: "reduce1 f xs = Inl e \<Longrightarrow> e = TypeError"
  by (cases xs) auto

lemma pricing_row_Inl: "pricing_row m = Inl e \<Longrightarrow> e = TypeError"
  by (auto simp: pricing_row_def split: jsval.splits)

lemma make_summary_Inl: "make_summary ms = Inl e \<Longrightarrow> e = TypeError"
  by (auto simp: make_summary_def split: sum.splits dest: reduce1_Inl)

lemma cost_estimate_Inl: "cost_estimate ms wl = Inl e \<Longrightarrow> e = TypeError \<or> e = RangeError"
proof -
  assume a: "cost_estimate ms wl = Inl e"
  let ?f = "\<lambda>m. case formatModelData m of
                           Inl e \<Rightarrow> Inl e
                         | Inr formatted \<Rightarrow> Inr (m, calculateCost formatted wl)"
  show ?thesis
  proof (cases "map_err ?f ms")
    case (Inl e')
    then obtain x where "?f x = Inl e'" using map_err_Inl by blast
    then have "e' = RangeError" by (auto split: sum.splits dest: formatModelData_error)
    moreover have "e = e'" using a Inl by (simp add: cost_estimate_def)
    ultimately show ?thesis by simp
  next
    case (Inr costs)
    then show ?thesis using a
      by (auto simp: cost_estimate_def split: sum.splits dest: reduce1_Inl)
  qed
qed

lemma generateComparison_Inl:
  "generateComparison ms wl = Inl e \<Longrightarrow> e = TypeError \<or> e = RangeError"
proof -
  assume a: "generateComparison ms wl = Inl e"
  show ?thesis
  proof (cases "map_err pricing_row ms")
    case (Inl e')
    then obtain x where "pricing_row x = Inl e'" using map_err_Inl by blast
    then have "e' = TypeError" by (rule pricing_row_Inl)
    moreover have "e = e'" using a Inl by (simp add: generateComparison_def)
    ultimately show ?thesis by simp
  next
    case (Inr prows)
    then show ?thesis using a
      by (auto simp: generateComparison_def split: sum.splits option.splits
          dest: cost_estimate_Inl make_summary_Inl)
  qed
qed

lemma comparison_of_Inl: "comparison_of ps sm = Inl e \<Longrightarrow> e = TypeError \<or> e = RangeError"
  by (auto simp: comparison_of_def split: if_splits sum.splits dest: generateComparison_Inl)

lemma comparison_of_few: "length (model_ids_of ps) \<le> 1 \<Longrightarrow> comparison_of ps sm = Inr None"
  by (simp add: comparison_of_def)

lemma comparison_of_many:
  "1 < length (model_ids_of ps) \<Longrightarrow> comparison_of ps sm = Inr c \<Longrightarrow>
     \<exists>k. c = Some k \<and> generateComparison (take (length (model_ids_of ps)) sm) (arg_workload ps) = Inr k"
  by (auto simp: comparison_of_def split: sum.splits)

lemma consider_fetched_cases:
  "(\<exists>e. map_err formatModelData (sorted_models coll ps (models fr)) = Inl e \<and>
        consider_fetched coll ps fr = Inl e)
   \<or> (\<exists>fm. map_err formatModelData (sorted_models coll ps (models fr)) = Inr fm \<and>
        ((\<exists>e. comparison_of ps (sorted_models coll ps (models fr)) = Inl e \<and>
              consider_fetched coll ps fr = Inl e)
         \<or> (\<exists>c resp. comparison_of ps (sorted_models coll ps (models fr)) = Inr c \<and>
              consider_fetched coll ps fr = Inr resp \<and> r_comparison resp = c)))"
  by (cases "map_err formatModelData (sorted_models coll ps (models fr))";
      cases "comparison_of ps (sorted_models coll ps (models fr))")
     (simp_all add: consider_fetched_def Let_def)


lemma format_all_Inl: "map_err formatModelData ms = Inl e \<Longrightarrow> e = RangeError"
  using map_err_Inl formatModelData_error by blast

text \<open>The scans of the summary keep the first record unless a later one is strictly better.\<close>

lemma foldl_keeps_first: "(\<forall>y\<in>set xs. pick x y = x) \<Longrightarrow> foldl pick x xs = x"
  by (induction xs) auto

lemma cheapest_tie_break:
  "(\<forall>y\<in>set xs. \<not> js_lt (raw_total y) (raw_total x)) \<Longrightarrow> reduce1 pick_cheapest (x # xs) = Inr x"
  by (simp add: foldl_keeps_first pick_cheapest_def)

lemma highest_context_tie_break:
  "(\<forall>y\<in>set xs. \<not> js_gt (context_length y) (context_length x)) \<Longrightarrow>
     reduce1 pick_highest_context (x # xs) = Inr x"
  by (simp add: foldl_keeps_first pick_highest_context_def)

lemma most_capable_tie_break:
  "(\<forall>y\<in>set xs. \<not> param_count x < param_count y) \<Longrightarrow>
     reduce1 pick_most_capable (x # xs) = Inr x"
  by (simp add: foldl_keeps_first pick_most_capable_def)

text \<open>
  The pricing table reads the per-million prices of the records it is given. The records
  of the catalogue do not have them, so on these the comparison raises \<open>TypeError\<close>; on an
  empty list the scans raise it.
\<close>

lemma generateComparison_upstream:
  assumes "\<forall>m\<in>set ms. prompt_per_1m (pricing m) = Undefined"
  shows "generateComparison ms wl = Inl TypeError"
proof (cases ms)
  case Nil
  then show ?thesis
    by (cases wl) (simp_all add: generateComparison_def make_summary_def cost_estimate_def)
next
  case (Cons m rest)
  then have "pricing_row m = Inl TypeError" using assms by (simp add: pricing_row_def)
  then show ?thesis using Cons by (simp add: generateComparison_def)
qed

text \<open>
  Identifiers that match no record leave nothing to compare, and with two of them or more
  the request fails.
\<close>

lemma filter_steps_subset:
  "set (filter_provider flt ms) \<subseteq> set ms"
  "set (filter_free flt ms) \<subseteq> set ms"
  "set (filter_min_context flt ms) \<subseteq> set ms"
  "set (filter_max_context flt ms) \<subseteq> set ms"
  "set (filter_max_price flt ms) \<subseteq> set ms"
  "set (filter_vision flt ms) \<subseteq> set ms"
  "set (filter_tools flt ms) \<subseteq> set ms"
  "set (filter_reasoning flt ms) \<subseteq> set ms"
  "set (filter_modality flt ms) \<subseteq> set ms"
  by (auto simp: filter_provider_def filter_free_def filter_min_context_def filter_max_context_def
        filter_max_price_def filter_vision_def filter_tools_def filter_reasoning_def
        filter_modality_def split: option.splits provider_filter.splits if_splits)

lemma applyFilters_subset: "set (applyFilters ms flt) \<subseteq> set ms"
  unfolding applyFilters_def
  by (meson filter_steps_subset order_trans)

lemma searchModels_Nil: "searchModels [] ts = []"
  by (simp add: searchModels_def)

lemma sortModels_Nil: "sortModels coll [] c = []"
  by (simp add: sortModels_def js_sort_def)

lemma sorted_models_unmatched:
  assumes "model_ids_of ps \<noteq> []" and "\<forall>m\<in>set ms. \<not> id_match (model_ids_of ps) m"
  shows "sorted_models coll ps ms = []"
proof -
  have "\<forall>m\<in>set (applyFilters ms (combined_filters ps)). \<not> id_match (model_ids_of ps) m"
    using assms(2) applyFilters_subset by blast
  then have "filter (id_match (model_ids_of ps)) (applyFilters ms (combined_filters ps)) = []"
    by (simp add: filter_empty_conv)
  then show ?thesis
    using assms(1) by (simp add: sorted_models_def Let_def searchModels_Nil sortModels_Nil js_sort_def)
qed

lemma consider_fetched_empty_comparison:
  assumes "1 < length (model_ids_of ps)" and "sorted_models coll ps (models fr) = []"
  shows "consider_fetched coll ps fr = Inl TypeError"
proof -
  have "generateComparison [] (arg_workload ps) = Inl TypeError"
    by (rule generateComparison_upstream) simp
  then have "comparison_of ps [] = Inl TypeError"
    using assms(1) by (simp add: comparison_of_def)
  then show ?thesis using assms(2) by (simp add: consider_fetched_def Let_def)
qed

text \<open>
  Claim C2, as the code has it. No check of the number of records exists. After a
  successful fetch \<open>considerModels\<close> raises nothing but \<open>TypeError\<close> and \<open>RangeError\<close>. With
  no identifier or one, no comparison is attempted: the call fails only where formatting a
  record fails, and the response has no comparison block. With two identifiers or more,
  however many, the comparison is built by \<open>generateComparison\<close> over the first records of
  the sorted list, as many as there are identifiers.
\<close>

theorem considerModels_comparison_gate:
  "(\<forall>e. consider_fetched coll ps fr = Inl e \<longrightarrow> e = TypeError \<or> e = RangeError)
   \<and> (length (model_ids_of ps) \<le> 1 \<longrightarrow>
        (isl (consider_fetched coll ps fr) \<longleftrightarrow>
           isl (map_err formatModelData (sorted_models coll ps (models fr))))
      \<and> (\<forall>resp. consider_fetched coll ps fr = Inr resp \<longrightarrow> r_comparison resp = None))
   \<and> (1 < length (model_ids_of ps) \<longrightarrow>
        (\<forall>resp. consider_fetched coll ps fr = Inr resp \<longrightarrow>
           (\<exists>k. r_comparison resp = Some k \<and>
                generateComparison
                  (take (length (model_ids_of ps)) (sorted_models coll ps (models fr)))
                  (arg_workload ps) = Inr k)))"
proof -
  let ?sm = "sorted_models coll ps (models fr)"
  note cs = consider_fetched_cases [of coll ps fr]
  have errs: "\<forall>e. consider_fetched coll ps fr = Inl e \<longrightarrow> e = TypeError \<or> e = RangeError"
    using cs format_all_Inl [of ?sm] comparison_of_Inl [of ps ?sm] by auto
  have few: "length (model_ids_of ps) \<le> 1 \<longrightarrow>
        (isl (consider_fetched coll ps fr) \<longleftrightarrow> isl (map_err formatModelData ?sm))
      \<and> (\<forall>resp. consider_fetched coll ps fr = Inr resp \<longrightarrow> r_comparison resp = None)"
    using cs comparison_of_few [of ps ?sm] by auto
  have many: "1 < length (model_ids_of ps) \<longrightarrow>
        (\<forall>resp. consider_fetched coll ps fr = Inr resp \<longrightarrow>
           (\<exists>k. r_comparison resp = Some k \<and>
                generateComparison (take (length (model_ids_of ps)) ?sm) (arg_workload ps) = Inr k))"
    using cs comparison_of_many [of ps ?sm] by auto
  show ?thesis using errs few many by blast
qed

theorem considerModels_comparison_gate_witness:
  "\<not> isl (consider_fetched code_unit_compare (ids_params [''gpt-4''])
            \<lparr> models = [turbo_model, exact_model], cache_age = 0, cached = False \<rparr>)
   \<and> (\<exists>k. r_comparison
             (projr (consider_fetched code_unit_compare (ids_params [''gpt-4'', ''other''])
                       two_priced)) = Some k)"
proof -
  have few: "length (model_ids_of (ids_params [''gpt-4''])) \<le> 1"
    by (simp add: model_ids_of_def ids_params_def)
  have fmt: "\<not> isl (map_err formatModelData
      (sorted_models code_unit_compare (ids_params [''gpt-4''])
         (models \<lparr> models = [turbo_model, exact_model], cache_age = 0, cached = False \<rparr>)))"
    by code_simp
  have one: "\<not> isl (consider_fetched code_unit_compare (ids_params [''gpt-4''])
            \<lparr> models = [turbo_model, exact_model], cache_age = 0, cached = False \<rparr>)"
    using considerModels_comparison_gate [of code_unit_compare "ids_params [''gpt-4'']"
        "\<lparr> models = [turbo_model, exact_model], cache_age = 0, cached = False \<rparr>"] few fmt
    by blast
  have many: "1 < length (model_ids_of (ids_params [''gpt-4'', ''other'']))"
    by (simp add: model_ids_of_def ids_params_def)
  have "\<not> isl (consider_fetched code_unit_compare (ids_params [''gpt-4'', ''other'']) two_priced)"
    by code_simp
  then have ok: "consider_fetched code_unit_compare (ids_params [''gpt-4'', ''other'']) two_priced =
      Inr (projr (consider_fetched code_unit_compare (ids_params [''gpt-4'', ''other'']) two_priced))"
    by simp
  have two: "\<exists>k. r_comparison
             (projr (consider_fetched code_unit_compare (ids_params [''gpt-4'', ''other''])
                       two_priced)) = Some k"
    using considerModels_comparison_gate [of code_unit_compare
        "ids_params [''gpt-4'', ''other'']" two_priced] many ok
    by blast
  show ?thesis using one two by blast
qed

text \<open>
  The claim as stated fails: a request with one identifier succeeds and has no comparison
  block; six records that carry their per-million prices are compared without an error; and
  a request with six identifiers over catalogue records fails with the \<open>TypeError\<close> that a
  request with two identifiers raises.
\<close>

theorem comparison_size_is_not_checked:
  "map_sum id r_comparison
     (fst (considerModels code_unit_compare (ids_params [''gpt-4'']) 1000
             (ok_reply [turbo_model, exact_model]) fresh_world)) = Inr None
   \<and> isl (generateComparison (replicate 6 priced_model) None) = False
   \<and> fst (considerModels code_unit_compare
            (ids_params [''a1'', ''a2'', ''a3'', ''a4'', ''a5'', ''a6'']) 1000
            (ok_reply [turbo_model, exact_model]) fresh_world) = Inl TypeError"
  by code_simp

text \<open>
  Claim C6 fails on the code. Two identifiers that match no record of the snapshot leave
  the list to compare empty, and the scan of an empty list raises \<open>TypeError\<close>: the request
  fails where the claim has a response with empty values.
\<close>

theorem considerModels_unmatched_identifiers_raise:
  "fst (considerModels code_unit_compare (ids_params [''x/a'', ''x/b'']) 1000
          (ok_reply [turbo_model, exact_model]) fresh_world) = Inl TypeError"
  by code_simp

text \<open>
  Claim C8 fails on the code. For two catalogue records \<open>A\<close> and \<open>B\<close> of equal price, named by
  their identifiers, the comparison raises \<open>TypeError\<close> while it builds the pricing table, so
  no summary is reported: the claim has \<open>cheapest = A.id\<close>. (The scans themselves keep the
  first of tied records, see \<open>cheapest_tie_break\<close>.)
\<close>

theorem comparison_of_catalogue_records_raises:
  "fst (considerModels code_unit_compare (ids_params [''acme/a'', ''acme/b'']) 1000
          (ok_reply [tie_a, tie_b]) fresh_world) = Inl TypeError
   \<and> generateComparison [tie_a, tie_b] None = Inl TypeError
   \<and> raw_total tie_a = raw_total tie_b"
  by code_simp

end
